theory Spec2Isabelle
  imports Main "HOL-Library.Word"
begin

section \<open>Wi-Fi provisioning lifecycle of \<open>main/wifi_setup.c\<close>\<close>

text \<open>
  The module keeps two file-level variables (\<open>provisioning_timer\<close> and
  \<open>startup_wifi_config\<close>) and otherwise only calls into the platform: the timer service,
  the provisioning manager, the Wi-Fi stack and the reconnect component. The embedding
  threads one \<open>state\<close> record through every function. It holds the two variables, the
  part of the platform whose contents flow back into the code (the stored station
  configuration and the table of timers), and the trace of every call that leaves the
  module, in program order. A call wrapped in \<open>ESP_ERROR_CHECK\<close> asks the environment for
  its return code, and a code other than \<open>ESP_OK\<close> aborts, which is the \<open>Inl\<close> branch
  of the result.
\<close>

subsection \<open>Data\<close>

type_synonym u8 = "8 word"
type_synonym esp_err_t = "32 word"
type_synonym esp_timer_handle_t = nat

definition ESP_OK :: esp_err_t where
  "ESP_OK = 0"

definition NUL :: char where
  "NUL = CHR 0x00"

text \<open>
  \<open>wifi_config_t\<close> is a union of which the module reads and writes the station member
  only. \<open>ssid\<close> is the 32-byte array, \<open>password\<close> the 64-byte one.
\<close>

record wifi_sta_config_t =
  ssid :: "u8 list"
  password :: "u8 list"

record wifi_config_t =
  sta :: wifi_sta_config_t

text \<open>The value of \<open>wifi_config_t x = {}\<close>.\<close>

definition zero_wifi_config :: wifi_config_t where
  "zero_wifi_config = \<lparr>sta = \<lparr>ssid = replicate 32 0, password = replicate 64 0\<rparr>\<rparr>"

text \<open>
  \<open>a[0]\<close> of a byte array. The arrays of the program have 32 bytes; a list without
  elements reads as the terminator.
\<close>

definition first_byte :: "u8 list \<Rightarrow> u8" where
  "first_byte a = (case a of [] \<Rightarrow> 0 | b # _ \<Rightarrow> b)"

datatype wifi_prov_sta_fail_reason_t = WIFI_PROV_STA_AUTH_ERROR | WIFI_PROV_STA_AP_NOT_FOUND

text \<open>The event id together with the data the event carries.\<close>

datatype wifi_prov_cb_event_t =
    WIFI_PROV_INIT
  | WIFI_PROV_START
  | WIFI_PROV_CRED_RECV wifi_sta_config_t
  | WIFI_PROV_CRED_FAIL wifi_prov_sta_fail_reason_t
  | WIFI_PROV_CRED_SUCCESS
  | WIFI_PROV_END
  | WIFI_PROV_DEINIT

datatype esp_log_level_t = ESP_LOG_INFO | ESP_LOG_ERROR

text \<open>An argument of a log call, recorded as it is passed.\<close>

datatype log_arg = Arg_s string | Arg_bytes "u8 list" | Arg_d "32 word"

datatype wifi_storage_t = WIFI_STORAGE_FLASH | WIFI_STORAGE_RAM
datatype wifi_mode_t = WIFI_MODE_NULL | WIFI_MODE_STA | WIFI_MODE_AP | WIFI_MODE_APSTA
datatype wifi_prov_security_t = WIFI_PROV_SECURITY_0 | WIFI_PROV_SECURITY_1

datatype timer_callback = Provisioning_timer_handler

record esp_timer_create_args_t =
  callback :: timer_callback
  name :: string

text \<open>Every call that leaves the module, with the arguments it is made with.\<close>

datatype call =
    ESP_LOG esp_log_level_t string "log_arg list"
  | Esp_timer_create esp_timer_create_args_t
  | Esp_timer_start_once "esp_timer_handle_t option" "64 word"
  | Esp_timer_stop esp_timer_handle_t
  | Esp_timer_delete esp_timer_handle_t
  | Wifi_prov_mgr_init
  | Wifi_prov_mgr_is_provisioned
  | Wifi_prov_mgr_start_provisioning wifi_prov_security_t "string option" string "string option"
  | Wifi_prov_mgr_stop_provisioning
  | Wifi_prov_mgr_deinit
  | Esp_wifi_init
  | Esp_wifi_set_storage wifi_storage_t
  | Esp_wifi_set_mode wifi_mode_t
  | Esp_wifi_get_config
  | Esp_wifi_set_config wifi_config_t
  | Esp_wifi_start
  | Esp_netif_init
  | Esp_netif_create_default_wifi_sta
  | Tcpip_adapter_set_hostname string
  | Esp_event_handler_register
  | Wifi_reconnect_start
  | Wifi_reconnect_resume
  | Esp_ota_get_partition_description
  | Esp_efuse_mac_get_default

text \<open>
  A timer of the timer service: what it was created with, and the timeout in microseconds
  while it is armed.
\<close>

record esp_timer =
  create_args :: esp_timer_create_args_t
  armed :: "64 word option"

record state =
  provisioning_timer :: "esp_timer_handle_t option"
  startup_wifi_config :: wifi_config_t
  flash_wifi_config :: wifi_config_t
  timers :: "esp_timer_handle_t \<rightharpoonup> esp_timer"
  next_handle :: esp_timer_handle_t
  trace :: "call list"

text \<open>
  What the platform supplies and the module does not change: the return code of a checked
  call (it may depend on the calls made so far), the project name of the running
  application, the six bytes of the factory MAC address, what
  \<open>wifi_prov_mgr_is_provisioned\<close> reports, and the build-time option
  \<open>CONFIG_APP_WIFI_PROV_TIMEOUT_S\<close>.
\<close>

record env =
  ret :: "call list \<Rightarrow> call \<Rightarrow> esp_err_t"
  project_name :: string
  efuse_mac :: "u8 list"
  provisioned :: bool
  APP_WIFI_PROV_TIMEOUT_S :: "32 word"

datatype abort = Abort esp_err_t | Assert_failed

subsection \<open>Calls into the platform\<close>

definition bind :: "abort + 'a \<Rightarrow> ('a \<Rightarrow> abort + 'b) \<Rightarrow> abort + 'b" where
  "bind m f = (case m of Inl a \<Rightarrow> Inl a | Inr x \<Rightarrow> f x)"

text \<open>A call whose return value the code ignores, or that returns nothing.\<close>

definition call_void :: "call \<Rightarrow> state \<Rightarrow> state" where
  "call_void c s = s\<lparr>trace := trace s @ [c]\<rparr>"

text \<open>A call that returns an \<open>esp_err_t\<close>.\<close>

definition call_err :: "env \<Rightarrow> call \<Rightarrow> state \<Rightarrow> esp_err_t \<times> state" where
  "call_err e c s = (ret e (trace s) c, call_void c s)"

definition ESP_ERROR_CHECK :: "esp_err_t \<times> state \<Rightarrow> abort + state" where
  "ESP_ERROR_CHECK r = (if fst r = ESP_OK then Inr (snd r) else Inl (Abort (fst r)))"

definition esp_log :: "esp_log_level_t \<Rightarrow> string \<Rightarrow> log_arg list \<Rightarrow> state \<Rightarrow> state" where
  "esp_log lvl fmt args s = call_void (ESP_LOG lvl fmt args) s"

text \<open>
  The timer service. \<open>esp_timer_create\<close> hands out a fresh handle for a timer that is not
  armed and writes it through its out-parameter, which at its only call is
  \<open>&provisioning_timer\<close>; \<open>esp_timer_start_once\<close> arms the timer, \<open>esp_timer_stop\<close>
  disarms it and \<open>esp_timer_delete\<close> releases a timer that is not armed. The module
  checks the return codes of the first two and ignores those of the last two.
\<close>

definition esp_timer_create :: "env \<Rightarrow> esp_timer_create_args_t \<Rightarrow> state \<Rightarrow> esp_err_t \<times> state" where
  "esp_timer_create e args s =
     (let r = call_err e (Esp_timer_create args) s in
      if fst r = ESP_OK
      then (ESP_OK, (snd r)\<lparr>provisioning_timer := Some (next_handle s),
                             timers := (timers s)(next_handle s \<mapsto> \<lparr>create_args = args, armed = None\<rparr>),
                             next_handle := Suc (next_handle s)\<rparr>)
      else r)"

definition esp_timer_start_once :: "env \<Rightarrow> esp_timer_handle_t option \<Rightarrow> 64 word \<Rightarrow> state \<Rightarrow> esp_err_t \<times> state" where
  "esp_timer_start_once e h timeout_us s =
     (let r = call_err e (Esp_timer_start_once h timeout_us) s in
      if fst r = ESP_OK
      then (ESP_OK, (snd r)\<lparr>timers :=
              (case h of None \<Rightarrow> timers s
               | Some n \<Rightarrow> (case timers s n of None \<Rightarrow> timers s
                            | Some t \<Rightarrow> (timers s)(n \<mapsto> t\<lparr>armed := Some timeout_us\<rparr>)))\<rparr>)
      else r)"

definition esp_timer_stop :: "esp_timer_handle_t \<Rightarrow> state \<Rightarrow> state" where
  "esp_timer_stop h s =
     (call_void (Esp_timer_stop h) s)\<lparr>timers :=
        (case timers s h of None \<Rightarrow> timers s | Some t \<Rightarrow> (timers s)(h \<mapsto> t\<lparr>armed := None\<rparr>))\<rparr>"

definition esp_timer_delete :: "esp_timer_handle_t \<Rightarrow> state \<Rightarrow> state" where
  "esp_timer_delete h s =
     (call_void (Esp_timer_delete h) s)\<lparr>timers :=
        (case timers s h of None \<Rightarrow> timers s
         | Some t \<Rightarrow> (if armed t = None then (timers s)(h := None) else timers s))\<rparr>"

text \<open>
  The Wi-Fi stack: \<open>esp_wifi_get_config\<close> copies the stored station configuration out,
  \<open>esp_wifi_set_config\<close> stores the one it is given. Both are always called under
  \<open>ESP_ERROR_CHECK\<close>.
\<close>

definition esp_wifi_get_config :: "env \<Rightarrow> state \<Rightarrow> abort + (wifi_config_t \<times> state)" where
  "esp_wifi_get_config e s =
     bind (ESP_ERROR_CHECK (call_err e Esp_wifi_get_config s)) (\<lambda>s'. Inr (flash_wifi_config s, s'))"

definition esp_wifi_set_config :: "env \<Rightarrow> wifi_config_t \<Rightarrow> state \<Rightarrow> abort + state" where
  "esp_wifi_set_config e cfg s =
     bind (ESP_ERROR_CHECK (call_err e (Esp_wifi_set_config cfg) s))
       (\<lambda>s'. Inr (s'\<lparr>flash_wifi_config := cfg\<rparr>))"

subsection \<open>The timer functions\<close>

definition provisioning_timer_delete :: "state \<Rightarrow> state" where
  "provisioning_timer_delete s =
     (case provisioning_timer s of
        None \<Rightarrow> s
      | Some h \<Rightarrow> (esp_timer_delete h (esp_timer_stop h s))\<lparr>provisioning_timer := None\<rparr>)"

definition provisioning_timer_handler :: "state \<Rightarrow> state" where
  "provisioning_timer_handler s =
     call_void Wifi_prov_mgr_stop_provisioning (esp_log ESP_LOG_INFO ''provisioning timeout'' [] s)"

subsection \<open>The event handler\<close>

fun wifi_prov_event_handler :: "env \<Rightarrow> wifi_prov_cb_event_t \<Rightarrow> state \<Rightarrow> abort + state" where
  "wifi_prov_event_handler e WIFI_PROV_START s =
     Inr (esp_log ESP_LOG_INFO ''provisioning started'' [] s)"
| "wifi_prov_event_handler e (WIFI_PROV_CRED_RECV wifi_sta_cfg) s =
     Inr (esp_log ESP_LOG_INFO (''provisioning received ssid '%s'' @ [CHR 0x27])
            [Arg_bytes (ssid wifi_sta_cfg)] s)"
| "wifi_prov_event_handler e (WIFI_PROV_CRED_FAIL reason) s =
     Inr (esp_log ESP_LOG_ERROR ''provisioning failed: %s''
            [Arg_s (if reason = WIFI_PROV_STA_AUTH_ERROR
                    then ''wifi STA authentication failed'' else ''wifi AP not found'')] s)"
| "wifi_prov_event_handler e WIFI_PROV_CRED_SUCCESS s =
     Inr (esp_log ESP_LOG_INFO ''provisioning successful'' [] s)"
| "wifi_prov_event_handler e WIFI_PROV_END s =
     (let s1 = esp_log ESP_LOG_INFO ''provisioning end'' [] s;
          s2 = provisioning_timer_delete s1;
          s3 = call_void Wifi_prov_mgr_deinit s2
      in bind (ESP_ERROR_CHECK (call_err e (Esp_wifi_set_storage WIFI_STORAGE_FLASH) s3)) (\<lambda>s4.
         bind (esp_wifi_get_config e s4) (\<lambda>(current_cfg, s5).
         bind (if first_byte (ssid (sta current_cfg)) = 0
               then esp_wifi_set_config e (startup_wifi_config s5)
                      (esp_log ESP_LOG_INFO
                         ''wifi credentials not found after provisioning, trying startup wifi config'' [] s5)
               else if first_byte (ssid (sta (startup_wifi_config s5))) = 0
               then Inr (esp_log ESP_LOG_INFO ''no wifi credentials found'' [] s5)
               else Inr s5) (\<lambda>s6.
         Inr (call_void Wifi_reconnect_resume s6)))))"
| "wifi_prov_event_handler e _ s = Inr s"

subsection \<open>Device name and service name\<close>

text \<open>
  The two \<open>snprintf\<close> calls of \<open>setup_wifi\<close>. A C string ends at its first NUL;
  \<open>%.25s\<close> prints at most 25 characters of it; \<open>%06llx\<close> prints an unsigned 64-bit value
  in lowercase hexadecimal, padded with zeros on the left to at least six digits;
  \<open>snprintf\<close> with a buffer of \<open>bufsize\<close> bytes keeps the first \<open>bufsize - 1\<close> characters.
\<close>

definition c_str :: "string \<Rightarrow> string" where
  "c_str cs = takeWhile (\<lambda>c. c \<noteq> NUL) cs"

definition hex_digit :: "nat \<Rightarrow> char" where
  "hex_digit d = ''0123456789abcdef'' ! d"

fun to_hex :: "nat \<Rightarrow> string" where
  "to_hex n = (if n < 16 then [hex_digit n] else to_hex (n div 16) @ [hex_digit (n mod 16)])"

declare to_hex.simps [simp del]

definition fmt_s_prec :: "nat \<Rightarrow> string \<Rightarrow> string" where
  "fmt_s_prec p cs = take p (c_str cs)"

definition fmt_06llx :: "64 word \<Rightarrow> string" where
  "fmt_06llx v = replicate (6 - length (to_hex (unat v))) (CHR ''0'') @ to_hex (unat v)"

definition snprintf :: "nat \<Rightarrow> string \<Rightarrow> string" where
  "snprintf bufsize out = take (bufsize - 1) out"

text \<open>
  \<open>uint64_t mac = 0\<close> after \<open>esp_efuse_mac_get_default((uint8_t *)&mac)\<close> has written the six
  bytes of the address to its lowest addresses. The targets are little-endian: the first
  byte of the address is the least significant byte of \<open>mac\<close>.
\<close>

definition mac_of_bytes :: "u8 list \<Rightarrow> 64 word" where
  "mac_of_bytes bs = foldr (\<lambda>b acc. ucast b + 256 * acc) (take 6 bs) 0"

definition device_name :: "string \<Rightarrow> 64 word \<Rightarrow> string" where
  "device_name app_project_name mac =
     snprintf 33 (fmt_s_prec 25 app_project_name @ ''-'' @ fmt_06llx mac)"

definition service_name :: "string \<Rightarrow> string" where
  "service_name dev_name = snprintf (33 + 5) (''PROV_'' @ c_str dev_name)"

text \<open>
  For stating what the hexadecimal part holds: the number a byte sequence denotes with its
  first byte least significant, and the number a string of lowercase hexadecimal digits
  denotes.
\<close>

definition le_value :: "u8 list \<Rightarrow> nat" where
  "le_value bs = foldr (\<lambda>b acc. unat b + 256 * acc) bs 0"

definition hex_digit_value :: "char \<Rightarrow> nat" where
  "hex_digit_value c = length (takeWhile (\<lambda>d. d \<noteq> c) ''0123456789abcdef'')"

definition hex_value :: "string \<Rightarrow> nat" where
  "hex_value cs = foldl (\<lambda>acc c. 16 * acc + hex_digit_value c) 0 cs"

text \<open>
  The device name as the specification words it: the product name cut to at most 25
  characters, a dash, and the six bytes of the hardware identifier in lowercase
  hexadecimal, two digits for each byte.
\<close>

definition hex_of_bytes :: "u8 list \<Rightarrow> string" where
  "hex_of_bytes bs = concat (map (\<lambda>b. [hex_digit (unat b div 16), hex_digit (unat b mod 16)]) bs)"

definition spec_device_name :: "string \<Rightarrow> u8 list \<Rightarrow> string" where
  "spec_device_name product_name hardware_id =
     take 25 (c_str product_name) @ ''-'' @ hex_of_bytes hardware_id"

subsection \<open>Startup\<close>

text \<open>
  \<open>APP_WIFI_PROV_TIMEOUT_S * 1000000\<close> is a product of two \<open>int\<close>s, passed where a
  \<open>uint64_t\<close> is expected: the product is taken in 32 bits (wrapping where C leaves the
  overflow undefined) and then sign-extended.
\<close>

definition timeout_us :: "env \<Rightarrow> 64 word" where
  "timeout_us e = scast (APP_WIFI_PROV_TIMEOUT_S e * 1000000)"

text \<open>
  \<open>esp_ota_get_partition_description\<close> is checked without abort: when it fails,
  \<open>app_info\<close> keeps its initial zero bytes.
\<close>

definition get_project_name :: "env \<Rightarrow> state \<Rightarrow> string \<times> state" where
  "get_project_name e s =
     (let r = call_err e Esp_ota_get_partition_description s in
      (if fst r = ESP_OK then project_name e else replicate 32 NUL, snd r))"

definition assert_nonnull :: "esp_err_t \<times> state \<Rightarrow> abort + state" where
  "assert_nonnull r = (if fst r = ESP_OK then Inr (snd r) else Inl Assert_failed)"

text \<open>
  The creation of the network interface returns a pointer, which \<open>assert\<close> tests; the
  environment answers \<open>ESP_OK\<close> for a pointer that is not null.
\<close>

definition setup_wifi :: "env \<Rightarrow> bool \<Rightarrow> state \<Rightarrow> abort + state" where
  "setup_wifi e reconfigure s =
     (let (app_project_name, s) = get_project_name e s in
      bind (ESP_ERROR_CHECK (call_err e Esp_efuse_mac_get_default s)) (\<lambda>s.
      let mac = mac_of_bytes (efuse_mac e);
          dev_name = device_name app_project_name mac;
          s = esp_log ESP_LOG_INFO (''device name '%s'' @ [CHR 0x27]) [Arg_s dev_name] s
      in
      bind (ESP_ERROR_CHECK (call_err e Esp_netif_init s)) (\<lambda>s.
      bind (assert_nonnull (call_err e Esp_netif_create_default_wifi_sta s)) (\<lambda>s.
      bind (ESP_ERROR_CHECK (call_err e Esp_wifi_init s)) (\<lambda>s.
      bind (ESP_ERROR_CHECK (call_err e (Esp_wifi_set_storage WIFI_STORAGE_FLASH) s)) (\<lambda>s.
      bind (ESP_ERROR_CHECK (call_err e (Esp_wifi_set_mode WIFI_MODE_STA) s)) (\<lambda>s.
      bind (ESP_ERROR_CHECK (call_err e (Tcpip_adapter_set_hostname dev_name) s)) (\<lambda>s.
      bind (ESP_ERROR_CHECK (call_err e Wifi_reconnect_start s)) (\<lambda>s.
      bind (esp_wifi_get_config e s) (\<lambda>(cfg, s).
      let s = s\<lparr>startup_wifi_config := cfg\<rparr> in
      bind (ESP_ERROR_CHECK (call_err e Esp_event_handler_register s)) (\<lambda>s.
      bind (ESP_ERROR_CHECK (call_err e Wifi_prov_mgr_init s)) (\<lambda>s.
      bind (ESP_ERROR_CHECK (call_err e Wifi_prov_mgr_is_provisioned s)) (\<lambda>s.
      if \<not> provisioned e \<or> reconfigure
      then
        (let s = esp_log ESP_LOG_INFO ''provisioning starting, timeout %d s''
                   [Arg_d (APP_WIFI_PROV_TIMEOUT_S e)] s
         in
         bind (ESP_ERROR_CHECK (call_err e
                 (Wifi_prov_mgr_start_provisioning WIFI_PROV_SECURITY_1 None
                    (service_name dev_name) None) s)) (\<lambda>s.
         bind (ESP_ERROR_CHECK (esp_timer_create e
                 \<lparr>callback = Provisioning_timer_handler, name = ''wifi_prov_timer''\<rparr> s)) (\<lambda>s.
         ESP_ERROR_CHECK (esp_timer_start_once e (provisioning_timer s) (timeout_us e) s))))
      else
        (let s = call_void Wifi_prov_mgr_deinit s in
         bind (ESP_ERROR_CHECK (call_err e Esp_wifi_start s)) (\<lambda>s.
         Inr (call_void Wifi_reconnect_resume s))))))))))))))))"

subsection \<open>The platform delivering events\<close>

text \<open>
  What reaches the module after \<open>setup_wifi\<close>: an event of the provisioning manager, the
  expiry of a timer, or the Wi-Fi stack changing the stored station configuration (the
  provisioning manager stores received credentials, and the stack may lose the stored
  configuration while provisioning runs). The timer service calls the callback of a timer
  only while the timer is armed, and a one-shot timer is no longer armed once it has
  expired.
\<close>

datatype platform_event =
    Prov_event wifi_prov_cb_event_t
  | Timer_expired esp_timer_handle_t
  | Stack_stores_config wifi_config_t

definition run_callback :: "timer_callback \<Rightarrow> state \<Rightarrow> state" where
  "run_callback cb s = (case cb of Provisioning_timer_handler \<Rightarrow> provisioning_timer_handler s)"

definition timer_expired :: "esp_timer_handle_t \<Rightarrow> state \<Rightarrow> state" where
  "timer_expired h s =
     (case timers s h of
        None \<Rightarrow> s
      | Some t \<Rightarrow>
          (if armed t = None then s
           else run_callback (callback (create_args t))
                  (s\<lparr>timers := (timers s)(h \<mapsto> t\<lparr>armed := None\<rparr>)\<rparr>)))"

fun deliver :: "env \<Rightarrow> platform_event \<Rightarrow> state \<Rightarrow> abort + state" where
  "deliver e (Prov_event ev) s = wifi_prov_event_handler e ev s"
| "deliver e (Timer_expired h) s = Inr (timer_expired h s)"
| "deliver e (Stack_stores_config cfg) s = Inr (s\<lparr>flash_wifi_config := cfg\<rparr>)"

fun deliver_all :: "env \<Rightarrow> platform_event list \<Rightarrow> state \<Rightarrow> abort + state" where
  "deliver_all e [] s = Inr s"
| "deliver_all e (ev # evs) s = bind (deliver e ev s) (deliver_all e evs)"

text \<open>The calls made between two states.\<close>

definition new_calls :: "state \<Rightarrow> state \<Rightarrow> call list" where
  "new_calls s s' = drop (length (trace s)) (trace s')"

definition is_log :: "call \<Rightarrow> bool" where
  "is_log c = (case c of ESP_LOG _ _ _ \<Rightarrow> True | _ \<Rightarrow> False)"

text \<open>An environment in which every checked call succeeds.\<close>

definition all_ok :: "env \<Rightarrow> bool" where
  "all_ok e = (\<forall>tr c. ret e tr c = ESP_OK)"

text \<open>The device name \<open>setup_wifi\<close> computes in a given environment and state.\<close>

definition dev_name_of :: "env \<Rightarrow> state \<Rightarrow> string" where
  "dev_name_of e s = device_name (fst (get_project_name e s)) (mac_of_bytes (efuse_mac e))"

text \<open>
  The timers that exist are at most the one \<open>provisioning_timer\<close> points to: no timer
  exists that the module could not reach any more.
\<close>

definition only_provisioning_timer :: "state \<Rightarrow> bool" where
  "only_provisioning_timer s = (\<forall>h. timers s h \<noteq> None \<longrightarrow> provisioning_timer s = Some h)"

subsection \<open>Example inputs\<close>

text \<open>
  A station configuration with a network name, a state of the module before any timer
  exists, and an environment in which every checked call succeeds: the project name is
  \<open>MyApp\<close> in its 32-byte array and the factory MAC address is \<open>24:6f:28:aa:bb:00\<close>.
\<close>

definition example_config :: wifi_config_t where
  "example_config = \<lparr>sta = \<lparr>ssid = [0x68, 0x6f, 0x6d, 0x65] @ replicate 28 0,
                               password = [0x73, 0x65, 0x63, 0x72, 0x65, 0x74] @ replicate 58 0\<rparr>\<rparr>"

definition example_state :: "wifi_config_t \<Rightarrow> wifi_config_t \<Rightarrow> state" where
  "example_state startup_cfg flash_cfg =
     \<lparr>provisioning_timer = None, startup_wifi_config = startup_cfg, flash_wifi_config = flash_cfg,
      timers = Map.empty, next_handle = 0, trace = []\<rparr>"

definition example_project_name :: string where
  "example_project_name = ''MyApp'' @ replicate 27 NUL"

definition example_mac :: "u8 list" where
  "example_mac = [0x24, 0x6f, 0x28, 0xaa, 0xbb, 0x00]"

definition example_env :: "bool \<Rightarrow> env" where
  "example_env p =
     \<lparr>ret = (\<lambda>_ _. ESP_OK), project_name = example_project_name,
      efuse_mac = example_mac, provisioned = p,
      APP_WIFI_PROV_TIMEOUT_S = 30\<rparr>"

text \<open>
  A state in the middle of a session: the timer with handle 0 exists and is armed, the
  stored configuration has a network name and the snapshot has none.
\<close>

definition example_session :: state where
  "example_session =
     \<lparr>provisioning_timer = Some 0, startup_wifi_config = zero_wifi_config,
      flash_wifi_config = example_config,
      timers = [0 \<mapsto> \<lparr>create_args = \<lparr>callback = Provisioning_timer_handler,
                                         name = ''wifi_prov_timer''\<rparr>,
                          armed = Some 30000000\<rparr>],
      next_handle = 1, trace = []\<rparr>"

section \<open>Properties\<close>

subsection \<open>Sequencing of checked calls\<close>

lemma bind_Inr [simp]: "bind (Inr x) f = f x"
  and bind_Inl [simp]: "bind (Inl a) f = Inl a"
  by (simp_all add: bind_def)

lemma bind_eq_Inr: "bind m f = Inr y \<longleftrightarrow> (\<exists>x. m = Inr x \<and> f x = Inr y)"
  by (cases m) simp_all

lemma check_call_Inr:
  "ESP_ERROR_CHECK (call_err e c s) = Inr s' \<longleftrightarrow> ret e (trace s) c = ESP_OK \<and> s' = call_void c s"
  by (auto simp: ESP_ERROR_CHECK_def call_err_def)

lemma check_call_ok: "all_ok e \<Longrightarrow> ESP_ERROR_CHECK (call_err e c s) = Inr (call_void c s)"
  by (simp add: ESP_ERROR_CHECK_def call_err_def all_ok_def)

lemma get_config_Inr:
  "esp_wifi_get_config e s = Inr p \<longleftrightarrow>
     ret e (trace s) Esp_wifi_get_config = ESP_OK \<and> p = (flash_wifi_config s, call_void Esp_wifi_get_config s)"
  by (auto simp: esp_wifi_get_config_def bind_eq_Inr check_call_Inr)

lemma set_config_Inr:
  "esp_wifi_set_config e cfg s = Inr s' \<longleftrightarrow>
     ret e (trace s) (Esp_wifi_set_config cfg) = ESP_OK \<and>
     s' = (call_void (Esp_wifi_set_config cfg) s)\<lparr>flash_wifi_config := cfg\<rparr>"
  by (auto simp: esp_wifi_set_config_def bind_eq_Inr check_call_Inr)

lemma call_void_simps [simp]:
  "trace (call_void c s) = trace s @ [c]"
  "provisioning_timer (call_void c s) = provisioning_timer s"
  "startup_wifi_config (call_void c s) = startup_wifi_config s"
  "flash_wifi_config (call_void c s) = flash_wifi_config s"
  "timers (call_void c s) = timers s"
  "next_handle (call_void c s) = next_handle s"
  by (simp_all add: call_void_def)

lemma esp_log_simps [simp]:
  "trace (esp_log l f a s) = trace s @ [ESP_LOG l f a]"
  "provisioning_timer (esp_log l f a s) = provisioning_timer s"
  "startup_wifi_config (esp_log l f a s) = startup_wifi_config s"
  "flash_wifi_config (esp_log l f a s) = flash_wifi_config s"
  "timers (esp_log l f a s) = timers s"
  "next_handle (esp_log l f a s) = next_handle s"
  by (simp_all add: esp_log_def)

lemma timer_delete_simps [simp]:
  "trace (provisioning_timer_delete s) =
     trace s @ (case provisioning_timer s of None \<Rightarrow> [] | Some h \<Rightarrow> [Esp_timer_stop h, Esp_timer_delete h])"
  "provisioning_timer (provisioning_timer_delete s) = None"
  "startup_wifi_config (provisioning_timer_delete s) = startup_wifi_config s"
  "flash_wifi_config (provisioning_timer_delete s) = flash_wifi_config s"
  "timers (provisioning_timer_delete s) =
     (case provisioning_timer s of None \<Rightarrow> timers s | Some h \<Rightarrow> (timers s)(h := None))"
  "next_handle (provisioning_timer_delete s) = next_handle s"
  by (auto simp: provisioning_timer_delete_def esp_timer_stop_def esp_timer_delete_def
      split: option.splits)

lemma all_ok_example_env: "all_ok (example_env p)"
  by (simp add: all_ok_def example_env_def)

lemma first_byte_replicate: "first_byte (replicate n 0) = 0"
  by (cases n) (simp_all add: first_byte_def)

lemma first_byte_example: "first_byte (ssid (sta example_config)) \<noteq> 0"
  "first_byte (ssid (sta zero_wifi_config)) = 0"
  by (simp_all add: first_byte_replicate zero_wifi_config_def)
     (simp add: first_byte_def example_config_def)

lemma new_calls_append: "trace s' = trace s @ cs \<Longrightarrow> new_calls s s' = cs"
  by (simp add: new_calls_def)

lemma END_trace:
  assumes "wifi_prov_event_handler e WIFI_PROV_END s = Inr s'"
  shows "new_calls s s' =
     [ESP_LOG ESP_LOG_INFO ''provisioning end'' []] @
     (case provisioning_timer s of None \<Rightarrow> [] | Some h \<Rightarrow> [Esp_timer_stop h, Esp_timer_delete h]) @
     [Wifi_prov_mgr_deinit, Esp_wifi_set_storage WIFI_STORAGE_FLASH, Esp_wifi_get_config] @
     (if first_byte (ssid (sta (flash_wifi_config s))) = 0
      then [ESP_LOG ESP_LOG_INFO
              ''wifi credentials not found after provisioning, trying startup wifi config'' [],
            Esp_wifi_set_config (startup_wifi_config s)]
      else if first_byte (ssid (sta (startup_wifi_config s))) = 0
      then [ESP_LOG ESP_LOG_INFO ''no wifi credentials found'' []]
      else []) @
     [Wifi_reconnect_resume]"
  using assms
  by (intro new_calls_append)
     (auto simp: Let_def bind_eq_Inr check_call_Inr get_config_Inr set_config_Inr
      split: if_splits option.splits)

lemma END_fields:
  assumes "wifi_prov_event_handler e WIFI_PROV_END s = Inr s'"
  shows "flash_wifi_config s' =
           (if first_byte (ssid (sta (flash_wifi_config s))) = 0
            then startup_wifi_config s else flash_wifi_config s)"
    and "provisioning_timer s' = None"
    and "timers s' = (case provisioning_timer s of None \<Rightarrow> timers s | Some h \<Rightarrow> (timers s)(h := None))"
    and "startup_wifi_config s' = startup_wifi_config s"
    and "next_handle s' = next_handle s"
  using assms
  by (auto simp: Let_def bind_eq_Inr check_call_Inr get_config_Inr set_config_Inr
      split: if_splits option.splits)

lemma END_total:
  assumes "all_ok e"
  shows "\<exists>s'. wifi_prov_event_handler e WIFI_PROV_END s = Inr s'"
  using assms
  by (simp add: Let_def check_call_ok esp_wifi_get_config_def esp_wifi_set_config_def)

subsection \<open>Reconciliation at the end of a session\<close>

text \<open>
  Claim C1. When \<open>WIFI_PROV_END\<close> is handled, the stored station configuration read back
  has no network name (its first SSID byte is NUL) and the snapshot taken at startup has
  one, then the handler stores the snapshot: every run of the handler that returns leaves
  the stored configuration equal to \<open>startup_wifi_config\<close>, having called
  \<open>esp_wifi_set_config\<close> with it; and the handler does return when every checked call
  succeeds.
\<close>

theorem session_end_restores_startup_credentials:
  assumes "first_byte (ssid (sta (flash_wifi_config s))) = 0"
    and "first_byte (ssid (sta (startup_wifi_config s))) \<noteq> 0"
  shows "(\<forall>s'. wifi_prov_event_handler e WIFI_PROV_END s = Inr s' \<longrightarrow>
            flash_wifi_config s' = startup_wifi_config s \<and>
            Esp_wifi_set_config (startup_wifi_config s) \<in> set (new_calls s s')) \<and>
         (all_ok e \<longrightarrow> (\<exists>s'. wifi_prov_event_handler e WIFI_PROV_END s = Inr s'))"
proof (intro conjI allI impI)
  fix s' assume 1: "wifi_prov_event_handler e WIFI_PROV_END s = Inr s'"
  show "flash_wifi_config s' = startup_wifi_config s"
    using assms END_fields(1)[OF 1] by simp
  show "Esp_wifi_set_config (startup_wifi_config s) \<in> set (new_calls s s')"
    using assms END_trace[OF 1] by simp
next
  assume "all_ok e"
  then show "\<exists>s'. wifi_prov_event_handler e WIFI_PROV_END s = Inr s'"
    by (rule END_total)
qed

theorem session_end_restores_startup_credentials_witness:
  "first_byte (ssid (sta (flash_wifi_config (example_state example_config zero_wifi_config)))) = 0 \<and>
   first_byte (ssid (sta (startup_wifi_config (example_state example_config zero_wifi_config)))) \<noteq> 0 \<and>
   (\<exists>s'. wifi_prov_event_handler (example_env True) WIFI_PROV_END
            (example_state example_config zero_wifi_config) = Inr s' \<and>
         flash_wifi_config s' = example_config)"
  using session_end_restores_startup_credentials
          [of "example_state example_config zero_wifi_config" "example_env True"]
  by (auto simp: example_state_def first_byte_example all_ok_example_env)

text \<open>
  Claim C3. When the stored station configuration read back at \<open>WIFI_PROV_END\<close> has a
  network name, the handler leaves it as it is and makes no call of
  \<open>esp_wifi_set_config\<close>; handling \<open>WIFI_PROV_END\<close> a second time, on the state the first
  run produced, again leaves the stored configuration unchanged and writes nothing. Both
  runs return when every checked call succeeds.
\<close>

theorem session_end_keeps_stored_credentials:
  assumes "first_byte (ssid (sta (flash_wifi_config s))) \<noteq> 0"
  shows "(\<forall>s'. wifi_prov_event_handler e WIFI_PROV_END s = Inr s' \<longrightarrow>
            flash_wifi_config s' = flash_wifi_config s \<and>
            (\<forall>cfg. Esp_wifi_set_config cfg \<notin> set (new_calls s s')) \<and>
            (\<forall>s''. wifi_prov_event_handler e WIFI_PROV_END s' = Inr s'' \<longrightarrow>
               flash_wifi_config s'' = flash_wifi_config s' \<and>
               (\<forall>cfg. Esp_wifi_set_config cfg \<notin> set (new_calls s' s'')))) \<and>
         (all_ok e \<longrightarrow>
            (\<exists>s' s''. wifi_prov_event_handler e WIFI_PROV_END s = Inr s' \<and>
                      wifi_prov_event_handler e WIFI_PROV_END s' = Inr s''))"
proof (intro conjI allI impI)
  fix s' assume 1: "wifi_prov_event_handler e WIFI_PROV_END s = Inr s'"
  show f: "flash_wifi_config s' = flash_wifi_config s"
    using assms END_fields(1)[OF 1] by simp
  show "\<And>cfg. Esp_wifi_set_config cfg \<notin> set (new_calls s s')"
    using assms END_trace[OF 1] by (auto split: option.splits)
  fix s'' assume 2: "wifi_prov_event_handler e WIFI_PROV_END s' = Inr s''"
  show "flash_wifi_config s'' = flash_wifi_config s'"
    using assms f END_fields(1)[OF 2] by simp
  show "\<And>cfg. Esp_wifi_set_config cfg \<notin> set (new_calls s' s'')"
    using assms f END_trace[OF 2] by (auto split: option.splits)
next
  assume ok: "all_ok e"
  obtain s' where 1: "wifi_prov_event_handler e WIFI_PROV_END s = Inr s'"
    using END_total[OF ok] by blast
  obtain s'' where 2: "wifi_prov_event_handler e WIFI_PROV_END s' = Inr s''"
    using END_total[OF ok] by blast
  from 1 2 show "\<exists>s' s''. wifi_prov_event_handler e WIFI_PROV_END s = Inr s' \<and>
                      wifi_prov_event_handler e WIFI_PROV_END s' = Inr s''" by blast
qed

theorem session_end_keeps_stored_credentials_witness:
  "first_byte (ssid (sta (flash_wifi_config (example_state zero_wifi_config example_config)))) \<noteq> 0 \<and>
   (\<exists>s' s''. wifi_prov_event_handler (example_env True) WIFI_PROV_END
                (example_state zero_wifi_config example_config) = Inr s' \<and>
              wifi_prov_event_handler (example_env True) WIFI_PROV_END s' = Inr s'' \<and>
              flash_wifi_config s' = example_config \<and> flash_wifi_config s'' = example_config)"
  using session_end_keeps_stored_credentials
          [of "example_state zero_wifi_config example_config" "example_env True"]
  by (auto simp: example_state_def first_byte_example all_ok_example_env)

text \<open>
  Claim C10. Whatever the snapshot holds, the stored station configuration after
  \<open>WIFI_PROV_END\<close> is the one read back if that has a network name, and the snapshot
  \<open>startup_wifi_config\<close> otherwise; the snapshot is written exactly when the configuration
  read back has no network name, also when the snapshot has none itself.
\<close>

theorem session_end_stored_record:
  "(\<forall>s'. wifi_prov_event_handler e WIFI_PROV_END s = Inr s' \<longrightarrow>
      flash_wifi_config s' =
        (if first_byte (ssid (sta (flash_wifi_config s))) \<noteq> 0
         then flash_wifi_config s else startup_wifi_config s) \<and>
      (first_byte (ssid (sta (flash_wifi_config s))) = 0 \<longrightarrow>
         Esp_wifi_set_config (startup_wifi_config s) \<in> set (new_calls s s')) \<and>
      (first_byte (ssid (sta (flash_wifi_config s))) \<noteq> 0 \<longrightarrow>
         (\<forall>cfg. Esp_wifi_set_config cfg \<notin> set (new_calls s s')))) \<and>
   (all_ok e \<longrightarrow> (\<exists>s'. wifi_prov_event_handler e WIFI_PROV_END s = Inr s'))"
proof (intro conjI allI impI)
  fix s' assume 1: "wifi_prov_event_handler e WIFI_PROV_END s = Inr s'"
  show "flash_wifi_config s' =
        (if first_byte (ssid (sta (flash_wifi_config s))) \<noteq> 0
         then flash_wifi_config s else startup_wifi_config s)"
    using END_fields(1)[OF 1] by simp
  show "Esp_wifi_set_config (startup_wifi_config s) \<in> set (new_calls s s')"
    if "first_byte (ssid (sta (flash_wifi_config s))) = 0"
    using that END_trace[OF 1] by simp
  show "\<And>cfg. Esp_wifi_set_config cfg \<notin> set (new_calls s s')"
    if "first_byte (ssid (sta (flash_wifi_config s))) \<noteq> 0"
    using that END_trace[OF 1] by (auto split: option.splits)
next
  assume "all_ok e"
  then show "\<exists>s'. wifi_prov_event_handler e WIFI_PROV_END s = Inr s'"
    by (rule END_total)
qed

theorem session_end_stored_record_witness:
  "\<exists>s'. wifi_prov_event_handler (example_env False) WIFI_PROV_END
          (example_state zero_wifi_config zero_wifi_config) = Inr s' \<and>
        flash_wifi_config s' = zero_wifi_config \<and>
        Esp_wifi_set_config zero_wifi_config \<in>
          set (new_calls (example_state zero_wifi_config zero_wifi_config) s')"
  using session_end_stored_record
          [of "example_env False" "example_state zero_wifi_config zero_wifi_config"]
  by (auto simp: example_state_def first_byte_example all_ok_example_env)

text \<open>
  Claim C2, evaluated. With neither a stored network name nor one in the snapshot, the
  handler logs that it tries the startup configuration and calls \<open>esp_wifi_set_config\<close>
  with the empty snapshot; the message \<open>no wifi credentials found\<close> is not among its calls.
  That message is logged instead when the stored configuration has a network name and
  the snapshot has none.
\<close>

theorem no_credentials_report_misplaced:
  "map_sum id (new_calls (example_state zero_wifi_config zero_wifi_config))
     (wifi_prov_event_handler (example_env False) WIFI_PROV_END
        (example_state zero_wifi_config zero_wifi_config)) =
   Inr [ESP_LOG ESP_LOG_INFO ''provisioning end'' [],
        Wifi_prov_mgr_deinit, Esp_wifi_set_storage WIFI_STORAGE_FLASH, Esp_wifi_get_config,
        ESP_LOG ESP_LOG_INFO
          ''wifi credentials not found after provisioning, trying startup wifi config'' [],
        Esp_wifi_set_config zero_wifi_config,
        Wifi_reconnect_resume] \<and>
   map_sum id (new_calls (example_state zero_wifi_config example_config))
     (wifi_prov_event_handler (example_env False) WIFI_PROV_END
        (example_state zero_wifi_config example_config)) =
   Inr [ESP_LOG ESP_LOG_INFO ''provisioning end'' [],
        Wifi_prov_mgr_deinit, Esp_wifi_set_storage WIFI_STORAGE_FLASH, Esp_wifi_get_config,
        ESP_LOG ESP_LOG_INFO ''no wifi credentials found'' [],
        Wifi_reconnect_resume]"
proof -
  obtain s1 where 1: "wifi_prov_event_handler (example_env False) WIFI_PROV_END
        (example_state zero_wifi_config zero_wifi_config) = Inr s1"
    using END_total[OF all_ok_example_env] by blast
  obtain s2 where 2: "wifi_prov_event_handler (example_env False) WIFI_PROV_END
        (example_state zero_wifi_config example_config) = Inr s2"
    using END_total[OF all_ok_example_env] by blast
  have "new_calls (example_state zero_wifi_config zero_wifi_config) s1 =
        [ESP_LOG ESP_LOG_INFO ''provisioning end'' [],
         Wifi_prov_mgr_deinit, Esp_wifi_set_storage WIFI_STORAGE_FLASH, Esp_wifi_get_config,
         ESP_LOG ESP_LOG_INFO
           ''wifi credentials not found after provisioning, trying startup wifi config'' [],
         Esp_wifi_set_config zero_wifi_config,
         Wifi_reconnect_resume]"
    using END_trace[OF 1] by (simp add: example_state_def first_byte_example)
  moreover have "new_calls (example_state zero_wifi_config example_config) s2 =
        [ESP_LOG ESP_LOG_INFO ''provisioning end'' [],
         Wifi_prov_mgr_deinit, Esp_wifi_set_storage WIFI_STORAGE_FLASH, Esp_wifi_get_config,
         ESP_LOG ESP_LOG_INFO ''no wifi credentials found'' [],
         Wifi_reconnect_resume]"
    using END_trace[OF 2] by (simp add: example_state_def first_byte_example)
  ultimately show ?thesis
    unfolding 1 2 by simp
qed

subsection \<open>Events other than the end of the session\<close>

lemma handler_observing:
  assumes "ev \<noteq> WIFI_PROV_END"
  shows "\<exists>s'. wifi_prov_event_handler e ev s = Inr s' \<and>
              timers s' = timers s \<and>
              provisioning_timer s' = provisioning_timer s \<and>
              flash_wifi_config s' = flash_wifi_config s \<and>
              startup_wifi_config s' = startup_wifi_config s \<and>
              next_handle s' = next_handle s \<and>
              (\<exists>cs. trace s' = trace s @ cs \<and> length cs \<le> 1 \<and> (\<forall>c \<in> set cs. is_log c))"
  using assms by (cases ev) (simp_all add: is_log_def)

lemma handler_CRED_FAIL:
  "wifi_prov_event_handler e (WIFI_PROV_CRED_FAIL reason) s =
     Inr (s\<lparr>trace := trace s @
            [ESP_LOG ESP_LOG_ERROR ''provisioning failed: %s''
               [Arg_s (if reason = WIFI_PROV_STA_AUTH_ERROR
                       then ''wifi STA authentication failed'' else ''wifi AP not found'')]]\<rparr>)"
  by (simp add: esp_log_def call_void_def)

lemma deliver_failures:
  "\<exists>cs. deliver_all e (map (\<lambda>r. Prov_event (WIFI_PROV_CRED_FAIL r)) reasons) s =
          Inr (s\<lparr>trace := trace s @ cs\<rparr>) \<and>
        length cs = length reasons \<and> (\<forall>c \<in> set cs. is_log c)"
proof (induction reasons arbitrary: s)
  case Nil
  show ?case by simp
next
  case (Cons r rs)
  let ?l = "ESP_LOG ESP_LOG_ERROR ''provisioning failed: %s''
               [Arg_s (if r = WIFI_PROV_STA_AUTH_ERROR
                       then ''wifi STA authentication failed'' else ''wifi AP not found'')]"
  let ?s1 = "s\<lparr>trace := trace s @ [?l]\<rparr>"
  obtain cs where cs: "deliver_all e (map (\<lambda>r. Prov_event (WIFI_PROV_CRED_FAIL r)) rs) ?s1 =
          Inr (?s1\<lparr>trace := trace ?s1 @ cs\<rparr>)" "length cs = length rs" "\<forall>c \<in> set cs. is_log c"
    using Cons.IH[of ?s1] by blast
  have "deliver_all e (map (\<lambda>r. Prov_event (WIFI_PROV_CRED_FAIL r)) (r # rs)) s =
          Inr (s\<lparr>trace := trace s @ (?l # cs)\<rparr>)"
    using cs(1) by (simp add: handler_CRED_FAIL del: wifi_prov_event_handler.simps)
  moreover have "length (?l # cs) = length (r # rs)" using cs(2) by simp
  moreover have "\<forall>c \<in> set (?l # cs). is_log c" using cs(3) by (simp add: is_log_def)
  ultimately show ?case by blast
qed

lemma is_log_simps [simp]:
  "is_log (ESP_LOG l f a)"
  "\<not> is_log Wifi_prov_mgr_stop_provisioning"
  "\<not> is_log Wifi_prov_mgr_deinit"
  "\<not> is_log (Esp_timer_stop h)"
  "\<not> is_log (Esp_timer_delete h)"
  "\<not> is_log (Esp_timer_start_once ho t)"
  "\<not> is_log (Esp_wifi_set_config cfg)"
  "\<not> is_log Wifi_reconnect_resume"
  by (simp_all add: is_log_def)

text \<open>
  Claim C5. Handling \<open>WIFI_PROV_CRED_FAIL\<close> adds one error log entry and changes nothing
  else. Hence any number of credential failures in a row, whatever their reasons, is
  handled without abort and leaves the timer table (the armed timer and its timeout
  included), the timer handle and both configurations as they were; every call made is a
  log call, so the transport is neither stopped nor deinitialised and no timer is stopped
  or deleted. The module keeps no state variable of its own for the session, so there is
  nothing else a failure could move.
\<close>

theorem credential_failures_leave_session_running:
  "wifi_prov_event_handler e (WIFI_PROV_CRED_FAIL reason) s =
     Inr (s\<lparr>trace := trace s @
            [ESP_LOG ESP_LOG_ERROR ''provisioning failed: %s''
               [Arg_s (if reason = WIFI_PROV_STA_AUTH_ERROR
                       then ''wifi STA authentication failed'' else ''wifi AP not found'')]]\<rparr>) \<and>
   (\<exists>s'. deliver_all e (map (\<lambda>r. Prov_event (WIFI_PROV_CRED_FAIL r)) reasons) s = Inr s' \<and>
         timers s' = timers s \<and>
         provisioning_timer s' = provisioning_timer s \<and>
         flash_wifi_config s' = flash_wifi_config s \<and>
         startup_wifi_config s' = startup_wifi_config s \<and>
         length (new_calls s s') = length reasons \<and>
         (\<forall>c \<in> set (new_calls s s'). is_log c) \<and>
         Wifi_prov_mgr_stop_provisioning \<notin> set (new_calls s s') \<and>
         Wifi_prov_mgr_deinit \<notin> set (new_calls s s') \<and>
         (\<forall>h. Esp_timer_stop h \<notin> set (new_calls s s') \<and>
              Esp_timer_delete h \<notin> set (new_calls s s')))"
proof
  show "wifi_prov_event_handler e (WIFI_PROV_CRED_FAIL reason) s =
     Inr (s\<lparr>trace := trace s @
            [ESP_LOG ESP_LOG_ERROR ''provisioning failed: %s''
               [Arg_s (if reason = WIFI_PROV_STA_AUTH_ERROR
                       then ''wifi STA authentication failed'' else ''wifi AP not found'')]]\<rparr>)"
    by (rule handler_CRED_FAIL)
  obtain cs where cs: "deliver_all e (map (\<lambda>r. Prov_event (WIFI_PROV_CRED_FAIL r)) reasons) s =
          Inr (s\<lparr>trace := trace s @ cs\<rparr>)" "length cs = length reasons" "\<forall>c \<in> set cs. is_log c"
    using deliver_failures by blast
  have nc: "new_calls s (s\<lparr>trace := trace s @ cs\<rparr>) = cs"
    by (simp add: new_calls_def)
  show "\<exists>s'. deliver_all e (map (\<lambda>r. Prov_event (WIFI_PROV_CRED_FAIL r)) reasons) s = Inr s' \<and>
         timers s' = timers s \<and>
         provisioning_timer s' = provisioning_timer s \<and>
         flash_wifi_config s' = flash_wifi_config s \<and>
         startup_wifi_config s' = startup_wifi_config s \<and>
         length (new_calls s s') = length reasons \<and>
         (\<forall>c \<in> set (new_calls s s'). is_log c) \<and>
         Wifi_prov_mgr_stop_provisioning \<notin> set (new_calls s s') \<and>
         Wifi_prov_mgr_deinit \<notin> set (new_calls s s') \<and>
         (\<forall>h. Esp_timer_stop h \<notin> set (new_calls s s') \<and>
              Esp_timer_delete h \<notin> set (new_calls s s'))"
  proof (intro exI conjI allI)
    show "deliver_all e (map (\<lambda>r. Prov_event (WIFI_PROV_CRED_FAIL r)) reasons) s =
          Inr (s\<lparr>trace := trace s @ cs\<rparr>)" by (rule cs(1))
  qed (use cs nc is_log_simps in \<open>auto\<close>)
qed

theorem credential_failures_leave_session_running_witness:
  "\<exists>s'. deliver_all (example_env True)
          (map (\<lambda>r. Prov_event (WIFI_PROV_CRED_FAIL r))
             [WIFI_PROV_STA_AUTH_ERROR, WIFI_PROV_STA_AP_NOT_FOUND]) example_session = Inr s' \<and>
        timers s' = timers example_session \<and>
        provisioning_timer s' = Some 0 \<and>
        length (new_calls example_session s') = 2 \<and>
        Wifi_prov_mgr_stop_provisioning \<notin> set (new_calls example_session s')"
proof -
  have "provisioning_timer example_session = Some 0"
    by (simp add: example_session_def)
  then show ?thesis
    using credential_failures_leave_session_running
            [of "example_env True" WIFI_PROV_STA_AUTH_ERROR example_session
                "[WIFI_PROV_STA_AUTH_ERROR, WIFI_PROV_STA_AP_NOT_FOUND]"]
    by auto
qed

subsection \<open>Startup\<close>

lemma check_call_if:
  "ESP_ERROR_CHECK (call_err e c s) =
     (if ret e (trace s) c = ESP_OK then Inr (call_void c s) else Inl (Abort (ret e (trace s) c)))"
  by (simp add: ESP_ERROR_CHECK_def call_err_def)

lemma assert_nonnull_if:
  "assert_nonnull (call_err e c s) =
     (if ret e (trace s) c = ESP_OK then Inr (call_void c s) else Inl Assert_failed)"
  by (simp add: assert_nonnull_def call_err_def)

lemma bind_if: "bind (if b then Inr x else Inl a) f = (if b then f x else Inl a)"
  by simp

lemma get_config_if:
  "esp_wifi_get_config e s =
     (if ret e (trace s) Esp_wifi_get_config = ESP_OK
      then Inr (flash_wifi_config s, call_void Esp_wifi_get_config s)
      else Inl (Abort (ret e (trace s) Esp_wifi_get_config)))"
  by (simp add: esp_wifi_get_config_def check_call_if)

lemma timer_create_if:
  "ESP_ERROR_CHECK (esp_timer_create e args s) =
     (if ret e (trace s) (Esp_timer_create args) = ESP_OK
      then Inr ((call_void (Esp_timer_create args) s)
            \<lparr>provisioning_timer := Some (next_handle s),
             timers := (timers s)(next_handle s \<mapsto> \<lparr>create_args = args, armed = None\<rparr>),
             next_handle := Suc (next_handle s)\<rparr>)
      else Inl (Abort (ret e (trace s) (Esp_timer_create args))))"
  by (simp add: esp_timer_create_def ESP_ERROR_CHECK_def call_err_def Let_def)

lemma timer_start_once_if:
  "ESP_ERROR_CHECK (esp_timer_start_once e h t s) =
     (if ret e (trace s) (Esp_timer_start_once h t) = ESP_OK
      then Inr ((call_void (Esp_timer_start_once h t) s)
            \<lparr>timers :=
               (case h of None \<Rightarrow> timers s
                | Some n \<Rightarrow> (case timers s n of None \<Rightarrow> timers s
                             | Some tm \<Rightarrow> (timers s)(n \<mapsto> tm\<lparr>armed := Some t\<rparr>)))\<rparr>)
      else Inl (Abort (ret e (trace s) (Esp_timer_start_once h t))))"
  by (simp add: esp_timer_start_once_def ESP_ERROR_CHECK_def call_err_def Let_def)

lemma snd_get_project_name:
  "snd (get_project_name e s) = call_void Esp_ota_get_partition_description s"
  by (simp add: get_project_name_def call_err_def Let_def)

lemmas setup_simps = Let_def split_def snd_get_project_name check_call_if assert_nonnull_if
  bind_if get_config_if timer_create_if timer_start_once_if

lemma setup_wifi_trace:
  assumes "setup_wifi e reconfigure s = Inr s'"
  shows "new_calls s s' =
     [Esp_ota_get_partition_description, Esp_efuse_mac_get_default,
      ESP_LOG ESP_LOG_INFO (''device name '%s'' @ [CHR 0x27]) [Arg_s (dev_name_of e s)],
      Esp_netif_init, Esp_netif_create_default_wifi_sta, Esp_wifi_init,
      Esp_wifi_set_storage WIFI_STORAGE_FLASH, Esp_wifi_set_mode WIFI_MODE_STA,
      Tcpip_adapter_set_hostname (dev_name_of e s), Wifi_reconnect_start,
      Esp_wifi_get_config, Esp_event_handler_register, Wifi_prov_mgr_init,
      Wifi_prov_mgr_is_provisioned] @
     (if \<not> provisioned e \<or> reconfigure
      then [ESP_LOG ESP_LOG_INFO ''provisioning starting, timeout %d s''
              [Arg_d (APP_WIFI_PROV_TIMEOUT_S e)],
            Wifi_prov_mgr_start_provisioning WIFI_PROV_SECURITY_1 None
              (service_name (dev_name_of e s)) None,
            Esp_timer_create \<lparr>callback = Provisioning_timer_handler, name = ''wifi_prov_timer''\<rparr>,
            Esp_timer_start_once (Some (next_handle s)) (timeout_us e)]
      else [Wifi_prov_mgr_deinit, Esp_wifi_start, Wifi_reconnect_resume])"
  using assms
  unfolding setup_wifi_def dev_name_of_def
  by (intro new_calls_append) (auto simp: setup_simps split: if_splits)

lemma setup_wifi_fields:
  assumes "setup_wifi e reconfigure s = Inr s'"
  shows "startup_wifi_config s' = flash_wifi_config s"
    and "flash_wifi_config s' = flash_wifi_config s"
    and "provisioning_timer s' =
           (if \<not> provisioned e \<or> reconfigure then Some (next_handle s) else provisioning_timer s)"
    and "timers s' =
           (if \<not> provisioned e \<or> reconfigure
            then (timers s)(next_handle s \<mapsto>
                   \<lparr>create_args = \<lparr>callback = Provisioning_timer_handler, name = ''wifi_prov_timer''\<rparr>,
                    armed = Some (timeout_us e)\<rparr>)
            else timers s)"
  using assms
  unfolding setup_wifi_def
  by (auto simp: setup_simps split: if_splits)

lemma setup_wifi_total:
  assumes "all_ok e"
  shows "\<exists>s'. setup_wifi e reconfigure s = Inr s'"
proof -
  have "\<And>tr c. ret e tr c = ESP_OK" using assms by (simp add: all_ok_def)
  then show ?thesis
    unfolding setup_wifi_def by (simp add: setup_simps)
qed

subsection \<open>The timeout timer\<close>

lemma timer_handler_simps [simp]:
  "trace (provisioning_timer_handler s) =
     trace s @ [ESP_LOG ESP_LOG_INFO ''provisioning timeout'' [], Wifi_prov_mgr_stop_provisioning]"
  "provisioning_timer (provisioning_timer_handler s) = provisioning_timer s"
  "startup_wifi_config (provisioning_timer_handler s) = startup_wifi_config s"
  "flash_wifi_config (provisioning_timer_handler s) = flash_wifi_config s"
  "timers (provisioning_timer_handler s) = timers s"
  "next_handle (provisioning_timer_handler s) = next_handle s"
  by (simp_all add: provisioning_timer_handler_def)

lemma timer_expired_fields:
  "provisioning_timer (timer_expired h s) = provisioning_timer s"
  "startup_wifi_config (timer_expired h s) = startup_wifi_config s"
  "flash_wifi_config (timer_expired h s) = flash_wifi_config s"
  "next_handle (timer_expired h s) = next_handle s"
  "timers (timer_expired h s) h' = None \<longleftrightarrow> timers s h' = None"
  "timers s h = None \<Longrightarrow> timer_expired h s = s"
  by (auto simp: timer_expired_def run_callback_def split: option.splits timer_callback.splits)

lemma deliver_preserves_only_timer:
  assumes "only_provisioning_timer s" and "deliver e ev s = Inr s'"
  shows "only_provisioning_timer s'"
proof (cases ev)
  case (Prov_event pe)
  show ?thesis
  proof (cases "pe = WIFI_PROV_END")
    case True
    then have 1: "wifi_prov_event_handler e WIFI_PROV_END s = Inr s'"
      using assms(2) Prov_event by simp
    show ?thesis
      using assms(1) END_fields(2,3)[OF 1]
      by (auto simp: only_provisioning_timer_def split: option.splits)
  next
    case False
    then show ?thesis
      using assms Prov_event handler_observing[OF False, of e s]
      by (auto simp: only_provisioning_timer_def)
  qed
next
  case (Timer_expired h)
  then have s': "s' = timer_expired h s" using assms(2) by simp
  have "timers s' h' \<noteq> None \<longleftrightarrow> timers s h' \<noteq> None" for h'
    unfolding s' by (simp add: timer_expired_fields(5))
  moreover have "provisioning_timer s' = provisioning_timer s"
    unfolding s' by (simp add: timer_expired_fields(1))
  ultimately show ?thesis
    using assms(1) by (simp add: only_provisioning_timer_def)
next
  case (Stack_stores_config cfg)
  then show ?thesis
    using assms by (auto simp: only_provisioning_timer_def)
qed

lemma deliver_all_preserves_only_timer:
  assumes "only_provisioning_timer s" and "deliver_all e evs s = Inr s'"
  shows "only_provisioning_timer s'"
  using assms
proof (induction evs arbitrary: s)
  case Nil
  then show ?case by simp
next
  case (Cons ev evs)
  from Cons.prems(2) obtain s1 where 1: "deliver e ev s = Inr s1"
    and 2: "deliver_all e evs s1 = Inr s'"
    by (auto simp: bind_eq_Inr)
  show ?case
    using Cons.IH[OF deliver_preserves_only_timer[OF Cons.prems(1) 1] 2] .
qed

lemma deliver_total:
  assumes "all_ok e"
  shows "\<exists>s'. deliver e ev s = Inr s'"
proof (cases ev)
  case (Prov_event pe)
  show ?thesis
  proof (cases "pe = WIFI_PROV_END")
    case True
    then show ?thesis using END_total[OF assms] Prov_event by simp
  next
    case False
    then show ?thesis using handler_observing[OF False, of e s] Prov_event by auto
  qed
qed simp_all

lemma deliver_all_total:
  assumes "all_ok e"
  shows "\<exists>s'. deliver_all e evs s = Inr s'"
proof (induction evs arbitrary: s)
  case Nil
  show ?case by simp
next
  case (Cons ev evs)
  obtain s1 where 1: "deliver e ev s = Inr s1"
    using deliver_total[OF assms] by blast
  obtain s2 where "deliver_all e evs s1 = Inr s2"
    using Cons.IH by blast
  then show ?case using 1 by simp
qed

lemma END_releases_only_timer:
  assumes "only_provisioning_timer s" and "wifi_prov_event_handler e WIFI_PROV_END s = Inr s'"
  shows "timers s' = Map.empty" and "provisioning_timer s' = None"
  using assms(1) END_fields(2,3)[OF assms(2)]
  by (auto simp: only_provisioning_timer_def fun_eq_iff split: option.splits)

text \<open>
  Claim C4. Starting from a state without timers and with a null timer handle, a
  \<open>setup_wifi\<close> that enters provisioning leaves exactly one timer in the timer table,
  armed with the configured timeout and pointed to by \<open>provisioning_timer\<close>. Whatever
  events the platform then delivers (provisioning events, timer expiries, changes of the
  stored configuration, in any number and order), once \<open>WIFI_PROV_END\<close> has been handled
  no timer exists any more and the handle is null. When every checked call succeeds,
  each of the three stages returns.
\<close>

theorem provisioning_timer_armed_once_and_released:
  assumes "timers s0 = Map.empty" and "provisioning_timer s0 = None"
    and "\<not> provisioned e \<or> reconfigure"
  shows "(\<forall>s1 s2 s3.
            setup_wifi e reconfigure s0 = Inr s1 \<and>
            deliver_all e evs s1 = Inr s2 \<and>
            wifi_prov_event_handler e WIFI_PROV_END s2 = Inr s3 \<longrightarrow>
              provisioning_timer s1 = Some (next_handle s0) \<and>
              timers s1 = [next_handle s0 \<mapsto>
                 \<lparr>create_args = \<lparr>callback = Provisioning_timer_handler, name = ''wifi_prov_timer''\<rparr>,
                  armed = Some (timeout_us e)\<rparr>] \<and>
              timers s3 = Map.empty \<and> provisioning_timer s3 = None) \<and>
         (all_ok e \<longrightarrow>
            (\<exists>s1 s2 s3.
               setup_wifi e reconfigure s0 = Inr s1 \<and>
               deliver_all e evs s1 = Inr s2 \<and>
               wifi_prov_event_handler e WIFI_PROV_END s2 = Inr s3))"
proof (intro conjI allI impI)
  fix s1 s2 s3
  assume run: "setup_wifi e reconfigure s0 = Inr s1 \<and>
            deliver_all e evs s1 = Inr s2 \<and>
            wifi_prov_event_handler e WIFI_PROV_END s2 = Inr s3"
  then have 1: "setup_wifi e reconfigure s0 = Inr s1"
    and 2: "deliver_all e evs s1 = Inr s2"
    and 3: "wifi_prov_event_handler e WIFI_PROV_END s2 = Inr s3" by simp_all
  show h: "provisioning_timer s1 = Some (next_handle s0)"
    using setup_wifi_fields(3)[OF 1] assms(3) by simp
  show t: "timers s1 = [next_handle s0 \<mapsto>
                 \<lparr>create_args = \<lparr>callback = Provisioning_timer_handler, name = ''wifi_prov_timer''\<rparr>,
                  armed = Some (timeout_us e)\<rparr>]"
    using setup_wifi_fields(4)[OF 1] assms(1,3) by simp
  have "only_provisioning_timer s1"
    using h t by (simp add: only_provisioning_timer_def)
  then have inv: "only_provisioning_timer s2"
    using 2 by (rule deliver_all_preserves_only_timer)
  show "timers s3 = Map.empty" using END_releases_only_timer(1)[OF inv 3] .
  show "provisioning_timer s3 = None" using END_releases_only_timer(2)[OF inv 3] .
next
  assume ok: "all_ok e"
  obtain s1 where 1: "setup_wifi e reconfigure s0 = Inr s1"
    using setup_wifi_total[OF ok] by blast
  obtain s2 where 2: "deliver_all e evs s1 = Inr s2"
    using deliver_all_total[OF ok] by blast
  obtain s3 where 3: "wifi_prov_event_handler e WIFI_PROV_END s2 = Inr s3"
    using END_total[OF ok] by blast
  show "\<exists>s1 s2 s3.
               setup_wifi e reconfigure s0 = Inr s1 \<and>
               deliver_all e evs s1 = Inr s2 \<and>
               wifi_prov_event_handler e WIFI_PROV_END s2 = Inr s3"
    using 1 2 3 by blast
qed

theorem provisioning_timer_armed_once_and_released_witness:
  "timers (example_state zero_wifi_config zero_wifi_config) = Map.empty \<and>
   provisioning_timer (example_state zero_wifi_config zero_wifi_config) = None \<and>
   \<not> provisioned (example_env False) \<and>
   (\<exists>s1 s2 s3.
      setup_wifi (example_env False) False (example_state zero_wifi_config zero_wifi_config) = Inr s1 \<and>
      deliver_all (example_env False)
        [Prov_event WIFI_PROV_START, Prov_event (WIFI_PROV_CRED_FAIL WIFI_PROV_STA_AUTH_ERROR),
         Timer_expired 0] s1 = Inr s2 \<and>
      wifi_prov_event_handler (example_env False) WIFI_PROV_END s2 = Inr s3 \<and>
      provisioning_timer s1 = Some 0 \<and>
      timers s1 = [0 \<mapsto>
         \<lparr>create_args = \<lparr>callback = Provisioning_timer_handler, name = ''wifi_prov_timer''\<rparr>,
          armed = Some 30000000\<rparr>] \<and>
      timers s3 = Map.empty \<and> provisioning_timer s3 = None)"
proof -
  let ?s0 = "example_state zero_wifi_config zero_wifi_config"
  let ?e = "example_env False"
  let ?evs = "[Prov_event WIFI_PROV_START, Prov_event (WIFI_PROV_CRED_FAIL WIFI_PROV_STA_AUTH_ERROR),
         Timer_expired 0]"
  have a: "timers ?s0 = Map.empty" "provisioning_timer ?s0 = None" "next_handle ?s0 = 0"
    by (simp_all add: example_state_def)
  have b: "\<not> provisioned ?e \<or> False" "timeout_us ?e = 30000000"
    by (simp_all add: example_env_def timeout_us_def)
  note main = provisioning_timer_armed_once_and_released [OF a(1) a(2) b(1), of ?evs]
  from main all_ok_example_env [of False] obtain s1 s2 s3 where
    run: "setup_wifi ?e False ?s0 = Inr s1 \<and> deliver_all ?e ?evs s1 = Inr s2 \<and>
          wifi_prov_event_handler ?e WIFI_PROV_END s2 = Inr s3"
    by blast
  from main run have "provisioning_timer s1 = Some (next_handle ?s0) \<and>
      timers s1 = [next_handle ?s0 \<mapsto>
         \<lparr>create_args = \<lparr>callback = Provisioning_timer_handler, name = ''wifi_prov_timer''\<rparr>,
          armed = Some (timeout_us ?e)\<rparr>] \<and>
      timers s3 = Map.empty \<and> provisioning_timer s3 = None"
    by blast
  then show ?thesis
    using a b run by auto
qed

lemma timer_handler_calls:
  "new_calls s (provisioning_timer_handler s) =
     [ESP_LOG ESP_LOG_INFO ''provisioning timeout'' [], Wifi_prov_mgr_stop_provisioning]"
  by (simp add: new_calls_def)

lemma END_resume_last:
  assumes "wifi_prov_event_handler e WIFI_PROV_END s = Inr s'"
  shows "\<exists>pre. new_calls s s' = pre @ [Wifi_reconnect_resume] \<and>
               Wifi_reconnect_resume \<notin> set pre \<and>
               Wifi_prov_mgr_deinit \<in> set pre \<and>
               Esp_wifi_get_config \<in> set pre \<and>
               (first_byte (ssid (sta (flash_wifi_config s))) = 0 \<longrightarrow>
                  Esp_wifi_set_config (startup_wifi_config s) \<in> set pre)"
proof -
  let ?pre = "butlast (new_calls s s')"
  have "new_calls s s' = ?pre @ [Wifi_reconnect_resume]"
    unfolding END_trace[OF assms] by (simp add: butlast_append)
  moreover have "Wifi_reconnect_resume \<notin> set ?pre"
    unfolding END_trace[OF assms] by (auto simp: butlast_append split: option.splits)
  moreover have "Wifi_prov_mgr_deinit \<in> set ?pre" "Esp_wifi_get_config \<in> set ?pre"
    unfolding END_trace[OF assms] by (auto simp: butlast_append split: option.splits)
  moreover have "first_byte (ssid (sta (flash_wifi_config s))) = 0 \<longrightarrow>
                  Esp_wifi_set_config (startup_wifi_config s) \<in> set ?pre"
    unfolding END_trace[OF assms] by (auto simp: butlast_append split: option.splits)
  ultimately show ?thesis by blast
qed

text \<open>
  Claim C6. The timeout callback logs and asks the provisioning manager to stop, and does
  nothing else: the timer table, the timer handle, the stored configuration and the
  snapshot are as before, so it releases no timer, deinitialises nothing and reconciles
  nothing. No event other than \<open>WIFI_PROV_END\<close> does any of that either: handling it only
  logs. In the handling of \<open>WIFI_PROV_END\<close> the call of \<open>wifi_reconnect_resume\<close> is the last
  call and occurs once, after the deinitialisation of the provisioning manager, the read
  of the stored configuration and the write of the snapshot where there is one.
\<close>

theorem timeout_only_requests_stop:
  "new_calls s (provisioning_timer_handler s) =
     [ESP_LOG ESP_LOG_INFO ''provisioning timeout'' [], Wifi_prov_mgr_stop_provisioning] \<and>
   timers (provisioning_timer_handler s) = timers s \<and>
   provisioning_timer (provisioning_timer_handler s) = provisioning_timer s \<and>
   flash_wifi_config (provisioning_timer_handler s) = flash_wifi_config s \<and>
   startup_wifi_config (provisioning_timer_handler s) = startup_wifi_config s \<and>
   (\<forall>ev. ev \<noteq> WIFI_PROV_END \<longrightarrow>
      (\<exists>s'. wifi_prov_event_handler e ev s = Inr s' \<and>
            timers s' = timers s \<and>
            provisioning_timer s' = provisioning_timer s \<and>
            flash_wifi_config s' = flash_wifi_config s \<and>
            startup_wifi_config s' = startup_wifi_config s \<and>
            (\<forall>c \<in> set (new_calls s s'). is_log c))) \<and>
   (\<forall>s'. wifi_prov_event_handler e WIFI_PROV_END s = Inr s' \<longrightarrow>
      (\<exists>pre. new_calls s s' = pre @ [Wifi_reconnect_resume] \<and>
             Wifi_reconnect_resume \<notin> set pre \<and>
             Wifi_prov_mgr_deinit \<in> set pre \<and>
             Esp_wifi_get_config \<in> set pre \<and>
             (first_byte (ssid (sta (flash_wifi_config s))) = 0 \<longrightarrow>
                Esp_wifi_set_config (startup_wifi_config s) \<in> set pre)))"
proof (intro conjI allI impI)
  show "new_calls s (provisioning_timer_handler s) =
     [ESP_LOG ESP_LOG_INFO ''provisioning timeout'' [], Wifi_prov_mgr_stop_provisioning]"
    by (rule timer_handler_calls)
next
  fix ev assume ne: "ev \<noteq> WIFI_PROV_END"
  obtain s' cs where h: "wifi_prov_event_handler e ev s = Inr s'"
    "timers s' = timers s" "provisioning_timer s' = provisioning_timer s"
    "flash_wifi_config s' = flash_wifi_config s" "startup_wifi_config s' = startup_wifi_config s"
    "trace s' = trace s @ cs" "\<forall>c \<in> set cs. is_log c"
    using handler_observing[OF ne, of e s] by blast
  have "new_calls s s' = cs" using h(6) by (rule new_calls_append)
  then show "\<exists>s'. wifi_prov_event_handler e ev s = Inr s' \<and>
            timers s' = timers s \<and>
            provisioning_timer s' = provisioning_timer s \<and>
            flash_wifi_config s' = flash_wifi_config s \<and>
            startup_wifi_config s' = startup_wifi_config s \<and>
            (\<forall>c \<in> set (new_calls s s'). is_log c)"
    using h by auto
next
  fix s' assume "wifi_prov_event_handler e WIFI_PROV_END s = Inr s'"
  then show "\<exists>pre. new_calls s s' = pre @ [Wifi_reconnect_resume] \<and>
             Wifi_reconnect_resume \<notin> set pre \<and>
             Wifi_prov_mgr_deinit \<in> set pre \<and>
             Esp_wifi_get_config \<in> set pre \<and>
             (first_byte (ssid (sta (flash_wifi_config s))) = 0 \<longrightarrow>
                Esp_wifi_set_config (startup_wifi_config s) \<in> set pre)"
    by (rule END_resume_last)
qed simp_all

theorem timeout_only_requests_stop_witness:
  "new_calls example_session (provisioning_timer_handler example_session) =
     [ESP_LOG ESP_LOG_INFO ''provisioning timeout'' [], Wifi_prov_mgr_stop_provisioning] \<and>
   timers (provisioning_timer_handler example_session) 0 =
     Some \<lparr>create_args = \<lparr>callback = Provisioning_timer_handler, name = ''wifi_prov_timer''\<rparr>,
           armed = Some 30000000\<rparr> \<and>
   (\<exists>s'. wifi_prov_event_handler (example_env True) WIFI_PROV_CRED_SUCCESS example_session = Inr s' \<and>
         timers s' = timers example_session) \<and>
   (\<exists>s' pre. wifi_prov_event_handler (example_env True) WIFI_PROV_END example_session = Inr s' \<and>
         new_calls example_session s' = pre @ [Wifi_reconnect_resume] \<and>
         Esp_wifi_get_config \<in> set pre)"
proof -
  note main = timeout_only_requests_stop [of example_session "example_env True"]
  obtain s' where 1: "wifi_prov_event_handler (example_env True) WIFI_PROV_END example_session = Inr s'"
    using END_total[OF all_ok_example_env] by blast
  have "timers example_session 0 =
     Some \<lparr>create_args = \<lparr>callback = Provisioning_timer_handler, name = ''wifi_prov_timer''\<rparr>,
           armed = Some 30000000\<rparr>"
    by (simp add: example_session_def)
  moreover have "WIFI_PROV_CRED_SUCCESS \<noteq> WIFI_PROV_END" by simp
  ultimately show ?thesis
    using main 1 by (metis (no_types, lifting))
qed

text \<open>
  Claim C9, as the code has it. Once \<open>WIFI_PROV_END\<close> has been handled the timer handle is
  null. A further release is then the identity on the state, so handling \<open>WIFI_PROV_END\<close>
  again makes no call of \<open>esp_timer_stop\<close> or \<open>esp_timer_delete\<close>, and the timer service
  has no timer left to fire under the released handle. The timeout callback itself has no
  guard: run after the end of the session it still logs and asks the provisioning manager
  to stop, but it uses no timer and leaves the timer table, the handle and both
  configurations unchanged.
\<close>

theorem released_timer_is_not_touched_again:
  assumes "wifi_prov_event_handler e WIFI_PROV_END s = Inr s'"
  shows "provisioning_timer s' = None \<and>
         provisioning_timer_delete s' = s' \<and>
         (\<forall>h. provisioning_timer s = Some h \<longrightarrow> timers s' h = None \<and> timer_expired h s' = s') \<and>
         timers (provisioning_timer_handler s') = timers s' \<and>
         provisioning_timer (provisioning_timer_handler s') = None \<and>
         flash_wifi_config (provisioning_timer_handler s') = flash_wifi_config s' \<and>
         startup_wifi_config (provisioning_timer_handler s') = startup_wifi_config s' \<and>
         new_calls s' (provisioning_timer_handler s') =
           [ESP_LOG ESP_LOG_INFO ''provisioning timeout'' [], Wifi_prov_mgr_stop_provisioning] \<and>
         (\<forall>s''. wifi_prov_event_handler e WIFI_PROV_END s' = Inr s'' \<longrightarrow>
            timers s'' = timers s' \<and> provisioning_timer s'' = None \<and>
            (\<forall>h. Esp_timer_stop h \<notin> set (new_calls s' s'') \<and>
                 Esp_timer_delete h \<notin> set (new_calls s' s'')))"
proof (intro conjI allI impI)
  show n: "provisioning_timer s' = None" using END_fields(2)[OF assms] .
  show "provisioning_timer_delete s' = s'"
    using n by (simp add: provisioning_timer_delete_def)
  show "provisioning_timer (provisioning_timer_handler s') = None" using n by simp
  show "new_calls s' (provisioning_timer_handler s') =
           [ESP_LOG ESP_LOG_INFO ''provisioning timeout'' [], Wifi_prov_mgr_stop_provisioning]"
    by (rule timer_handler_calls)
next
  fix h assume h: "provisioning_timer s = Some h"
  show t: "timers s' h = None" using END_fields(3)[OF assms] h by simp
  show "timer_expired h s' = s'" using t by (rule timer_expired_fields(6))
next
  fix s'' assume 2: "wifi_prov_event_handler e WIFI_PROV_END s' = Inr s''"
  have n: "provisioning_timer s' = None" using END_fields(2)[OF assms] .
  show "timers s'' = timers s'" using END_fields(3)[OF 2] n by simp
  show "provisioning_timer s'' = None" using END_fields(2)[OF 2] .
  show "\<And>h. Esp_timer_stop h \<notin> set (new_calls s' s'')"
    "\<And>h. Esp_timer_delete h \<notin> set (new_calls s' s'')"
    unfolding END_trace[OF 2] using n by auto
qed simp_all

theorem released_timer_is_not_touched_again_witness:
  "\<exists>s'. wifi_prov_event_handler (example_env True) WIFI_PROV_END example_session = Inr s' \<and>
        provisioning_timer s' = None \<and> provisioning_timer_delete s' = s' \<and>
        timers s' 0 = None \<and> timer_expired 0 s' = s'"
proof -
  obtain s' where 1: "wifi_prov_event_handler (example_env True) WIFI_PROV_END example_session = Inr s'"
    using END_total[OF all_ok_example_env] by blast
  have "provisioning_timer example_session = Some 0" by (simp add: example_session_def)
  then show ?thesis
    using released_timer_is_not_touched_again [OF 1] 1 by blast
qed

text \<open>
  Claim C9 as stated fails: after \<open>WIFI_PROV_END\<close> has been handled on a running session
  the handle is null, and the timeout callback run on that state makes two calls and so
  does not leave the state as it was.
\<close>

theorem late_timeout_callback_is_observable:
  "map_sum id provisioning_timer
     (wifi_prov_event_handler (example_env True) WIFI_PROV_END example_session) = Inr None \<and>
   map_sum id (\<lambda>s'. new_calls s' (provisioning_timer_handler s'))
     (wifi_prov_event_handler (example_env True) WIFI_PROV_END example_session) =
     Inr [ESP_LOG ESP_LOG_INFO ''provisioning timeout'' [], Wifi_prov_mgr_stop_provisioning] \<and>
   map_sum id (\<lambda>s'. provisioning_timer_handler s' = s')
     (wifi_prov_event_handler (example_env True) WIFI_PROV_END example_session) = Inr False"
proof -
  obtain s' where 1: "wifi_prov_event_handler (example_env True) WIFI_PROV_END example_session = Inr s'"
    using END_total[OF all_ok_example_env] by blast
  have "trace (provisioning_timer_handler s') \<noteq> trace s'" by simp
  then have "provisioning_timer_handler s' \<noteq> s'" by metis
  then show ?thesis
    unfolding 1 using END_fields(2)[OF 1] by (simp add: timer_handler_calls)
qed

subsection \<open>The decision taken at startup\<close>

text \<open>
  Claim C7. A \<open>setup_wifi\<close> that returns has started provisioning exactly when the
  provisioning manager reports no credentials or reconfiguration is requested. In that
  case its last three calls start provisioning under the service name derived from the
  device name, create the timer and arm it with the configured timeout, and it neither
  deinitialises the provisioning manager nor resumes the reconnect component. Otherwise
  its last three calls deinitialise the provisioning manager, start Wi-Fi and resume the
  reconnect component, and no timer is created or armed. In both cases the stored
  configuration is left as it was and the snapshot is a copy of it. \<open>setup_wifi\<close> returns
  when every checked call succeeds.
\<close>

theorem setup_enters_provisioning_iff_needed:
  "(\<forall>s'. setup_wifi e reconfigure s = Inr s' \<longrightarrow>
      ((\<exists>sec pop sn key. Wifi_prov_mgr_start_provisioning sec pop sn key \<in> set (new_calls s s'))
         \<longleftrightarrow> (\<not> provisioned e \<or> reconfigure)) \<and>
      startup_wifi_config s' = flash_wifi_config s \<and>
      flash_wifi_config s' = flash_wifi_config s \<and>
      (if \<not> provisioned e \<or> reconfigure
       then (\<exists>pre. new_calls s s' = pre @
               [Wifi_prov_mgr_start_provisioning WIFI_PROV_SECURITY_1 None
                  (service_name (dev_name_of e s)) None,
                Esp_timer_create \<lparr>callback = Provisioning_timer_handler, name = ''wifi_prov_timer''\<rparr>,
                Esp_timer_start_once (Some (next_handle s)) (timeout_us e)]) \<and>
            provisioning_timer s' = Some (next_handle s) \<and>
            timers s' (next_handle s) =
              Some \<lparr>create_args = \<lparr>callback = Provisioning_timer_handler, name = ''wifi_prov_timer''\<rparr>,
                    armed = Some (timeout_us e)\<rparr> \<and>
            Wifi_prov_mgr_deinit \<notin> set (new_calls s s') \<and>
            Wifi_reconnect_resume \<notin> set (new_calls s s')
       else (\<exists>pre. new_calls s s' = pre @ [Wifi_prov_mgr_deinit, Esp_wifi_start, Wifi_reconnect_resume] \<and>
                   Wifi_prov_mgr_deinit \<notin> set pre \<and> Wifi_reconnect_resume \<notin> set pre) \<and>
            provisioning_timer s' = provisioning_timer s \<and>
            timers s' = timers s \<and>
            (\<forall>a. Esp_timer_create a \<notin> set (new_calls s s')) \<and>
            (\<forall>h t. Esp_timer_start_once h t \<notin> set (new_calls s s')))) \<and>
   (all_ok e \<longrightarrow> (\<exists>s'. setup_wifi e reconfigure s = Inr s'))"
proof (intro conjI allI impI)
  fix s' assume 1: "setup_wifi e reconfigure s = Inr s'"
  note tr = setup_wifi_trace[OF 1]
  show "(\<exists>sec pop sn key. Wifi_prov_mgr_start_provisioning sec pop sn key \<in> set (new_calls s s'))
         \<longleftrightarrow> (\<not> provisioned e \<or> reconfigure)"
    unfolding tr by auto
  show "startup_wifi_config s' = flash_wifi_config s" using setup_wifi_fields(1)[OF 1] .
  show "flash_wifi_config s' = flash_wifi_config s" using setup_wifi_fields(2)[OF 1] .
  show "if \<not> provisioned e \<or> reconfigure
       then (\<exists>pre. new_calls s s' = pre @
               [Wifi_prov_mgr_start_provisioning WIFI_PROV_SECURITY_1 None
                  (service_name (dev_name_of e s)) None,
                Esp_timer_create \<lparr>callback = Provisioning_timer_handler, name = ''wifi_prov_timer''\<rparr>,
                Esp_timer_start_once (Some (next_handle s)) (timeout_us e)]) \<and>
            provisioning_timer s' = Some (next_handle s) \<and>
            timers s' (next_handle s) =
              Some \<lparr>create_args = \<lparr>callback = Provisioning_timer_handler, name = ''wifi_prov_timer''\<rparr>,
                    armed = Some (timeout_us e)\<rparr> \<and>
            Wifi_prov_mgr_deinit \<notin> set (new_calls s s') \<and>
            Wifi_reconnect_resume \<notin> set (new_calls s s')
       else (\<exists>pre. new_calls s s' = pre @ [Wifi_prov_mgr_deinit, Esp_wifi_start, Wifi_reconnect_resume] \<and>
                   Wifi_prov_mgr_deinit \<notin> set pre \<and> Wifi_reconnect_resume \<notin> set pre) \<and>
            provisioning_timer s' = provisioning_timer s \<and>
            timers s' = timers s \<and>
            (\<forall>a. Esp_timer_create a \<notin> set (new_calls s s')) \<and>
            (\<forall>h t. Esp_timer_start_once h t \<notin> set (new_calls s s'))"
  proof (cases "\<not> provisioned e \<or> reconfigure")
    case True
    have "\<exists>pre. new_calls s s' = pre @
               [Wifi_prov_mgr_start_provisioning WIFI_PROV_SECURITY_1 None
                  (service_name (dev_name_of e s)) None,
                Esp_timer_create \<lparr>callback = Provisioning_timer_handler, name = ''wifi_prov_timer''\<rparr>,
                Esp_timer_start_once (Some (next_handle s)) (timeout_us e)]"
      unfolding tr using True by (simp add: append_eq_append_conv2 append_eq_Cons_conv)
    moreover have "Wifi_prov_mgr_deinit \<notin> set (new_calls s s')"
      "Wifi_reconnect_resume \<notin> set (new_calls s s')"
      unfolding tr using True by auto
    ultimately show ?thesis
      using True setup_wifi_fields(3,4)[OF 1] by simp
  next
    case False
    have "\<exists>pre. new_calls s s' = pre @ [Wifi_prov_mgr_deinit, Esp_wifi_start, Wifi_reconnect_resume] \<and>
                   Wifi_prov_mgr_deinit \<notin> set pre \<and> Wifi_reconnect_resume \<notin> set pre"
      unfolding tr using False by (intro exI[of _ "take 14 (new_calls s s')"]) (simp add: tr)
    moreover have "\<forall>a. Esp_timer_create a \<notin> set (new_calls s s')"
      "\<forall>h t. Esp_timer_start_once h t \<notin> set (new_calls s s')"
      unfolding tr using False by auto
    ultimately show ?thesis
      using False setup_wifi_fields(3,4)[OF 1] by simp
  qed
next
  assume "all_ok e"
  then show "\<exists>s'. setup_wifi e reconfigure s = Inr s'" by (rule setup_wifi_total)
qed

theorem setup_enters_provisioning_iff_needed_witness:
  "(\<exists>s'. setup_wifi (example_env True) False (example_state zero_wifi_config example_config) = Inr s' \<and>
         timers s' = timers (example_state zero_wifi_config example_config) \<and>
         startup_wifi_config s' = example_config \<and>
         (\<exists>pre. new_calls (example_state zero_wifi_config example_config) s' =
                 pre @ [Wifi_prov_mgr_deinit, Esp_wifi_start, Wifi_reconnect_resume])) \<and>
   (\<exists>s'. setup_wifi (example_env True) True (example_state zero_wifi_config example_config) = Inr s' \<and>
         provisioning_timer s' = Some 0 \<and>
         timers s' 0 =
           Some \<lparr>create_args = \<lparr>callback = Provisioning_timer_handler, name = ''wifi_prov_timer''\<rparr>,
                 armed = Some 30000000\<rparr> \<and>
         Wifi_reconnect_resume \<notin> set (new_calls (example_state zero_wifi_config example_config) s'))"
proof -
  let ?s = "example_state zero_wifi_config example_config"
  let ?e = "example_env True"
  have a: "provisioned ?e" "timeout_us ?e = 30000000" "next_handle ?s = 0"
    "flash_wifi_config ?s = example_config"
    by (simp_all add: example_env_def timeout_us_def example_state_def)
  note ok = all_ok_example_env [of True]
  from setup_enters_provisioning_iff_needed [of ?e False ?s] ok
  obtain s1 where 1: "setup_wifi ?e False ?s = Inr s1" by blast
  from setup_enters_provisioning_iff_needed [of ?e True ?s] ok
  obtain s2 where 2: "setup_wifi ?e True ?s = Inr s2" by blast
  have "timers s1 = timers ?s \<and> startup_wifi_config s1 = example_config \<and>
         (\<exists>pre. new_calls ?s s1 = pre @ [Wifi_prov_mgr_deinit, Esp_wifi_start, Wifi_reconnect_resume])"
    using setup_enters_provisioning_iff_needed [of ?e False ?s] 1 a by auto
  moreover have "provisioning_timer s2 = Some 0 \<and>
         timers s2 0 =
           Some \<lparr>create_args = \<lparr>callback = Provisioning_timer_handler, name = ''wifi_prov_timer''\<rparr>,
                 armed = Some 30000000\<rparr> \<and>
         Wifi_reconnect_resume \<notin> set (new_calls ?s s2)"
    using setup_enters_provisioning_iff_needed [of ?e True ?s] 2 a by auto
  ultimately show ?thesis using 1 2 by blast
qed

subsection \<open>Device identity\<close>

lemma lt16_cases:
  assumes "d < (16::nat)"
  shows "d \<in> {0, 1, 2, 3, 4, 5, 6, 7, 8, 9, 10, 11, 12, 13, 14, 15}"
  using assms by (simp only: insert_iff empty_iff) arith

lemma hex_digit_value_hex_digit: "d < 16 \<Longrightarrow> hex_digit_value (hex_digit d) = d"
  using lt16_cases[of d] by (auto simp: hex_digit_def hex_digit_value_def)

lemma hex_digit_in: "d < 16 \<Longrightarrow> hex_digit d \<in> set ''0123456789abcdef''"
  unfolding hex_digit_def by (rule nth_mem) simp

lemma hex_value_snoc: "hex_value (cs @ [c]) = 16 * hex_value cs + hex_digit_value c"
  by (simp add: hex_value_def)

lemma hex_value_to_hex: "hex_value (to_hex n) = n"
proof (induction n rule: to_hex.induct)
  case (1 n)
  show ?case
  proof (cases "n < 16")
    case True
    then show ?thesis
      by (subst to_hex.simps) (simp add: hex_value_def hex_digit_value_hex_digit)
  next
    case False
    then have "hex_value (to_hex (n div 16)) = n div 16" using 1 by simp
    then show ?thesis
      using False
      by (subst to_hex.simps) (simp add: hex_value_snoc hex_digit_value_hex_digit)
  qed
qed

lemma hex_value_zeros: "hex_value (replicate k (CHR ''0'') @ cs) = hex_value cs"
proof -
  have "foldl (\<lambda>acc c. 16 * acc + hex_digit_value c) 0 (replicate k (CHR ''0'')) = 0"
    by (induction k) (simp_all add: hex_digit_value_def)
  then show ?thesis by (simp add: hex_value_def)
qed

lemma set_to_hex: "set (to_hex n) \<subseteq> set ''0123456789abcdef''"
proof (induction n rule: to_hex.induct)
  case (1 n)
  show ?case
  proof (cases "n < 16")
    case True
    then show ?thesis using hex_digit_in[of n] by (subst to_hex.simps) simp
  next
    case False
    then have "set (to_hex (n div 16)) \<subseteq> set ''0123456789abcdef''" using 1 by simp
    moreover have "hex_digit (n mod 16) \<in> set ''0123456789abcdef''"
      by (rule hex_digit_in) simp
    ultimately show ?thesis using False by (subst to_hex.simps) simp
  qed
qed

lemma length_to_hex_le: "0 < k \<Longrightarrow> n < 16 ^ k \<Longrightarrow> length (to_hex n) \<le> k"
proof (induction n arbitrary: k rule: to_hex.induct)
  case (1 n)
  show ?case
  proof (cases "n < 16")
    case True
    then show ?thesis using "1.prems" by (subst to_hex.simps) simp
  next
    case False
    obtain j where k: "k = Suc j" using "1.prems"(1) by (cases k) auto
    have "0 < j"
    proof (rule ccontr)
      assume "\<not> 0 < j"
      then have "n < 16" using "1.prems"(2) k by simp
      then show False using False by simp
    qed
    moreover have "n div 16 < 16 ^ j"
      using "1.prems"(2) k by (simp add: less_mult_imp_div_less mult.commute)
    ultimately have "length (to_hex (n div 16)) \<le> j"
      using "1.IH"[OF False] by simp
    then show ?thesis using False k by (subst to_hex.simps) simp
  qed
qed

lemma to_hex_digit: "d < 16 \<Longrightarrow> to_hex d = [hex_digit d]"
  by (subst to_hex.simps) simp

lemma to_hex_step: "0 < q \<Longrightarrow> r < 16 \<Longrightarrow> to_hex (16 * q + r) = to_hex q @ [hex_digit r]"
  by (subst to_hex.simps) simp

lemma to_hex_byte:
  assumes "0 < m" and "b < 256"
  shows "to_hex (b + 256 * m) = to_hex m @ [hex_digit (b div 16), hex_digit (b mod 16)]"
proof -
  have "b + 256 * m = 16 * (16 * m + b div 16) + b mod 16" by simp
  moreover have "to_hex (16 * (16 * m + b div 16) + b mod 16) =
      to_hex (16 * m + b div 16) @ [hex_digit (b mod 16)]"
    using assms(1) by (intro to_hex_step) simp_all
  moreover have "to_hex (16 * m + b div 16) = to_hex m @ [hex_digit (b div 16)]"
    using assms by (intro to_hex_step) simp_all
  ultimately show ?thesis by simp
qed

lemma le_value_simps [simp]:
  "le_value [] = 0"
  "le_value (b # bs) = unat b + 256 * le_value bs"
  by (simp_all add: le_value_def)

lemma unat_u8_lt: "unat (b :: u8) < 256"
  using unsigned_less[of b] by simp

lemma le_value_bound: "le_value bs < 256 ^ length bs"
proof (induction bs)
  case Nil
  show ?case by simp
next
  case (Cons b bs)
  have "unat b + 256 * le_value bs < 256 + 256 * le_value bs"
    using unat_u8_lt[of b] by simp
  also have "\<dots> = 256 * Suc (le_value bs)" by simp
  also have "\<dots> \<le> 256 * 256 ^ length bs"
    using Cons.IH by (intro mult_le_mono2) simp
  finally show ?case by simp
qed

lemma le_value_pos: "bs \<noteq> [] \<Longrightarrow> 16 \<le> unat (last bs) \<Longrightarrow> 0 < le_value bs"
  by (induction bs) (auto split: if_splits)

lemma to_hex_le_value:
  "bs \<noteq> [] \<Longrightarrow> 16 \<le> unat (last bs) \<Longrightarrow> to_hex (le_value bs) = hex_of_bytes (rev bs)"
proof (induction bs)
  case Nil
  then show ?case by simp
next
  case (Cons b bs)
  show ?case
  proof (cases "bs = []")
    case True
    then have b: "16 \<le> unat b" using Cons.prems by simp
    have "unat b = 16 * (unat b div 16) + unat b mod 16" by simp
    moreover have "to_hex (16 * (unat b div 16) + unat b mod 16) =
        to_hex (unat b div 16) @ [hex_digit (unat b mod 16)]"
      using b by (intro to_hex_step) simp_all
    moreover have "to_hex (unat b div 16) = [hex_digit (unat b div 16)]"
      using unat_u8_lt[of b] by (intro to_hex_digit) simp
    ultimately have "to_hex (unat b) = [hex_digit (unat b div 16), hex_digit (unat b mod 16)]"
      by simp
    then show ?thesis using True by (simp add: hex_of_bytes_def)
  next
    case False
    then have l: "16 \<le> unat (last bs)" using Cons.prems by simp
    have "to_hex (le_value bs) = hex_of_bytes (rev bs)" using Cons.IH[OF False l] .
    moreover have "to_hex (unat b + 256 * le_value bs) =
        to_hex (le_value bs) @ [hex_digit (unat b div 16), hex_digit (unat b mod 16)]"
      using le_value_pos[OF False l] unat_u8_lt[of b] by (intro to_hex_byte)
    ultimately show ?thesis by (simp add: hex_of_bytes_def)
  qed
qed

lemma mac_of_bytes_of_nat: "mac_of_bytes bs = of_nat (le_value (take 6 bs))"
proof -
  have "foldr (\<lambda>b acc. ucast b + 256 * acc) xs (0 :: 64 word) = of_nat (le_value xs)" for xs :: "u8 list"
    by (induction xs) (simp_all add: of_nat_unat)
  then show ?thesis by (simp add: mac_of_bytes_def)
qed

lemma unat_mac_of_bytes: "unat (mac_of_bytes bs) = le_value (take 6 bs)"
proof -
  have "le_value (take 6 bs) < 256 ^ length (take 6 bs)" by (rule le_value_bound)
  also have "\<dots> \<le> (256 :: nat) ^ 6" by (intro power_increasing) simp_all
  also have "\<dots> < 2 ^ 64" by simp
  finally have "le_value (take 6 bs) < 2 ^ LENGTH(64)" by simp
  then show ?thesis
    by (simp add: mac_of_bytes_of_nat unat_of_nat)
qed

lemma length_hex_of_bytes: "length (hex_of_bytes bs) = 2 * length bs"
  by (induction bs) (simp_all add: hex_of_bytes_def)

lemma length_fmt_06llx: "length (fmt_06llx v) = max 6 (length (to_hex (unat v)))"
  by (simp add: fmt_06llx_def)

lemma NUL_not_hex: "NUL \<notin> set ''0123456789abcdef''"
  by (simp add: NUL_def)

lemma set_fmt_06llx: "set (fmt_06llx v) \<subseteq> set ''0123456789abcdef''"
proof -
  have "set (replicate (6 - length (to_hex (unat v))) (CHR ''0'')) \<subseteq> set ''0123456789abcdef''"
    by (auto simp: set_replicate_conv_if)
  then show ?thesis
    using set_to_hex[of "unat v"] unfolding fmt_06llx_def set_append by blast
qed

lemma NUL_not_in_c_str: "NUL \<notin> set (c_str cs)"
  unfolding c_str_def by (auto dest: set_takeWhileD)

lemma c_str_id: "NUL \<notin> set cs \<Longrightarrow> c_str cs = cs"
  unfolding c_str_def by (simp add: takeWhile_eq_all_conv) metis

lemma NUL_not_in_device_name: "NUL \<notin> set (device_name nm v)"
proof -
  have "NUL \<notin> set (take 25 (c_str nm))"
    using NUL_not_in_c_str[of nm] by (auto dest: in_set_takeD)
  moreover have "NUL \<notin> set ''-''" by (simp add: NUL_def)
  moreover have "NUL \<notin> set (fmt_06llx v)"
    using set_fmt_06llx[of v] NUL_not_hex by blast
  ultimately have "NUL \<notin> set (take 25 (c_str nm) @ ''-'' @ fmt_06llx v)"
    unfolding set_append by blast
  then show ?thesis
    unfolding device_name_def snprintf_def fmt_s_prec_def by (auto dest: in_set_takeD)
qed

lemma service_name_device_name:
  "service_name (device_name nm v) = ''PROV_'' @ device_name nm v"
proof -
  have "length (device_name nm v) \<le> 32"
    by (simp add: device_name_def snprintf_def)
  then show ?thesis
    by (simp add: service_name_def snprintf_def c_str_id[OF NUL_not_in_device_name])
qed

text \<open>
  Claim C8, as the code has it. For a hardware identifier of six bytes the device name is
  the first 32 characters of: the product name up to its terminator cut to 25 characters,
  a dash, and the identifier printed by \<open>%06llx\<close>. That hexadecimal part has between 6 and
  12 lowercase hexadecimal digits and denotes the identifier read with its first byte
  least significant; when the last byte of the identifier is at least \<open>0x10\<close> it is exactly
  the twelve digits of the six bytes in reverse order. The device name has at most 32
  characters, and it holds the whole hexadecimal part whenever the product name has at most
  19 characters. The service name is \<open>PROV_\<close> followed by the device name and has at
  most 37 characters.
\<close>

theorem device_name_shape:
  assumes "length hardware_id = 6"
  shows "device_name nm (mac_of_bytes hardware_id) =
           take 32 (take 25 (c_str nm) @ ''-'' @ fmt_06llx (mac_of_bytes hardware_id)) \<and>
         length (device_name nm (mac_of_bytes hardware_id)) \<le> 32 \<and>
         6 \<le> length (fmt_06llx (mac_of_bytes hardware_id)) \<and>
         length (fmt_06llx (mac_of_bytes hardware_id)) \<le> 12 \<and>
         set (fmt_06llx (mac_of_bytes hardware_id)) \<subseteq> set ''0123456789abcdef'' \<and>
         hex_value (fmt_06llx (mac_of_bytes hardware_id)) = le_value hardware_id \<and>
         (16 \<le> unat (last hardware_id) \<longrightarrow>
            fmt_06llx (mac_of_bytes hardware_id) = hex_of_bytes (rev hardware_id)) \<and>
         (length (c_str nm) \<le> 19 \<longrightarrow>
            device_name nm (mac_of_bytes hardware_id) =
              c_str nm @ ''-'' @ fmt_06llx (mac_of_bytes hardware_id)) \<and>
         service_name (device_name nm (mac_of_bytes hardware_id)) =
           ''PROV_'' @ device_name nm (mac_of_bytes hardware_id) \<and>
         length (service_name (device_name nm (mac_of_bytes hardware_id))) \<le> 37"
proof -
  let ?m = "mac_of_bytes hardware_id"
  have u: "unat ?m = le_value hardware_id"
    using assms by (simp add: unat_mac_of_bytes)
  have "le_value hardware_id < 256 ^ 6"
    using le_value_bound[of hardware_id] assms by simp
  then have "le_value hardware_id < 16 ^ 12" by simp
  then have l12: "length (to_hex (le_value hardware_id)) \<le> 12"
    by (intro length_to_hex_le) simp_all
  have len: "6 \<le> length (fmt_06llx ?m)" "length (fmt_06llx ?m) \<le> 12"
    using l12 by (simp_all add: length_fmt_06llx u)
  have val: "hex_value (fmt_06llx ?m) = le_value hardware_id"
    by (simp add: fmt_06llx_def hex_value_zeros hex_value_to_hex u)
  have rv: "fmt_06llx ?m = hex_of_bytes (rev hardware_id)" if "16 \<le> unat (last hardware_id)"
  proof -
    have ne: "hardware_id \<noteq> []" using assms by auto
    have "to_hex (le_value hardware_id) = hex_of_bytes (rev hardware_id)"
      using to_hex_le_value[OF ne that] .
    then show ?thesis
      using assms by (simp add: fmt_06llx_def u length_hex_of_bytes)
  qed
  have short: "device_name nm ?m = c_str nm @ ''-'' @ fmt_06llx ?m" if "length (c_str nm) \<le> 19"
    using that len by (simp add: device_name_def snprintf_def fmt_s_prec_def)
  have dn: "length (device_name nm ?m) \<le> 32"
    by (simp add: device_name_def snprintf_def)
  have sn: "length (service_name (device_name nm ?m)) \<le> 37"
    using dn by (simp add: service_name_device_name)
  show ?thesis
    using len val rv short dn sn set_fmt_06llx[of ?m] service_name_device_name[of nm ?m]
    by (simp add: device_name_def snprintf_def fmt_s_prec_def)
qed

lemma example_mac_hex:
  "fmt_06llx (mac_of_bytes example_mac) = ''bbaa286f24''"
  "fmt_06llx (mac_of_bytes [0x24, 0x6f, 0x28, 0xaa, 0xbb, 0xcc]) = ''ccbbaa286f24''"
  by (simp_all add: example_mac_def fmt_06llx_def mac_of_bytes_def to_hex.simps hex_digit_def)

lemma example_c_str: "c_str example_project_name = ''MyApp''"
  by (simp add: example_project_name_def c_str_def NUL_def)

theorem device_name_shape_witness:
  "length example_mac = 6 \<and>
   device_name example_project_name (mac_of_bytes example_mac) =
     ''MyApp-bbaa286f24'' \<and>
   service_name (device_name example_project_name
       (mac_of_bytes example_mac)) = ''PROV_MyApp-bbaa286f24''"
proof -
  have l: "length example_mac = 6" by (simp add: example_mac_def)
  note main = device_name_shape [OF l, of example_project_name]
  have "length (c_str example_project_name) \<le> 19" by (simp add: example_c_str)
  with main have "device_name example_project_name (mac_of_bytes example_mac) =
      c_str example_project_name @ ''-'' @ fmt_06llx (mac_of_bytes example_mac)"
    by blast
  then have dn: "device_name example_project_name (mac_of_bytes example_mac) = ''MyApp-bbaa286f24''"
    by (simp add: example_c_str example_mac_hex)
  from main have "service_name (device_name example_project_name (mac_of_bytes example_mac)) =
      ''PROV_'' @ device_name example_project_name (mac_of_bytes example_mac)"
    by blast
  then have sn: "service_name (device_name example_project_name (mac_of_bytes example_mac)) =
      ''PROV_MyApp-bbaa286f24''"
    by (simp add: dn)
  show ?thesis using l dn sn by blast
qed

text \<open>
  Claim C8 as stated fails. For the product name \<open>MyApp\<close> and the identifier
  \<open>24:6f:28:aa:bb:00\<close> the code's device name is \<open>MyApp-bbaa286f24\<close>: the hexadecimal part
  has ten digits, not twelve, and differs from the in-order rendering
  \<open>246f28aabb00\<close>. For a product name of 25 characters the device name ends after six of
  the twelve digits of the identifier.
\<close>

theorem device_name_not_twelve_hex_digits:
  "device_name example_project_name (mac_of_bytes example_mac) =
     ''MyApp-bbaa286f24'' \<and>
   spec_device_name example_project_name example_mac =
     ''MyApp-246f28aabb00'' \<and>
   device_name example_project_name (mac_of_bytes example_mac) \<noteq>
     spec_device_name example_project_name example_mac \<and>
   length (fmt_06llx (mac_of_bytes example_mac)) = 10 \<and>
   device_name (replicate 25 (CHR ''a'')) (mac_of_bytes [0x24, 0x6f, 0x28, 0xaa, 0xbb, 0xcc]) =
     replicate 25 (CHR ''a'') @ ''-ccbbaa''"
proof -
  have a: "device_name example_project_name
             (mac_of_bytes example_mac) = ''MyApp-bbaa286f24''"
    by (simp add: device_name_def snprintf_def fmt_s_prec_def example_c_str example_mac_hex)
  have b: "spec_device_name example_project_name example_mac =
     ''MyApp-246f28aabb00''"
    by (simp add: spec_device_name_def example_c_str hex_of_bytes_def hex_digit_def example_mac_def)
  have c: "c_str (replicate 25 (CHR ''a'')) = replicate 25 (CHR ''a'')"
    by (rule c_str_id) (simp add: NUL_def)
  have d: "device_name (replicate 25 (CHR ''a'')) (mac_of_bytes [0x24, 0x6f, 0x28, 0xaa, 0xbb, 0xcc]) =
     replicate 25 (CHR ''a'') @ ''-ccbbaa''"
    by (simp add: device_name_def snprintf_def fmt_s_prec_def c example_mac_hex)
  show ?thesis
    unfolding a b using d by (simp add: example_mac_hex)
qed

end
